theory Spec2Isabelle
  imports Main "HOL-Library.Sublist"
begin

section \<open>Python strings\<close>

text \<open>
  A Python \<^verbatim>\<open>str\<close> that the program reads (a JSON string, a CSV field) is modelled as
  a \<^typ>\<open>string\<close>: the list of its code points, each below 256. On such text
  \<^verbatim>\<open>str.strip()\<close> removes the twelve characters for which \<^verbatim>\<open>str.isspace()\<close> holds, and the
  class \<^verbatim>\<open>\d\<close> of a regular expression is \<^verbatim>\<open>0\<close> to \<^verbatim>\<open>9\<close>.
\<close>

definition py_isspace :: "char \<Rightarrow> bool" where
  "py_isspace c \<longleftrightarrow>
     c \<in> set [CHR 0x09, CHR 0x0A, CHR 0x0B, CHR 0x0C, CHR 0x0D,
               CHR 0x1C, CHR 0x1D, CHR 0x1E, CHR 0x1F, CHR 0x20, CHR 0x85, CHR 0xA0]"

definition py_strip :: "string \<Rightarrow> string" where
  "py_strip s = rev (dropWhile py_isspace (rev (dropWhile py_isspace s)))"

text \<open>
  \<^verbatim>\<open>upper()\<close> leads out of these code points: the micro sign becomes the capital mu
  \<^verbatim>\<open>U+039C\<close>, the y with diaeresis becomes \<^verbatim>\<open>U+0178\<close>, and the sharp s becomes two letters.
  \<^verbatim>\<open>lower()\<close> turns the capital mu into the small mu \<^verbatim>\<open>U+03BC\<close>. A \<open>cpoint\<close> is a code
  point of the text that \<^verbatim>\<open>upper()\<close> and \<^verbatim>\<open>lower()\<close> make of such a string.
\<close>

datatype cpoint = L1 char | U039C | U0178 | U03BC

definition lower_letters :: string where
  "lower_letters = ''abcdefghijklmnopqrstuvwxyz'' @
     [CHR 0xE0, CHR 0xE1, CHR 0xE2, CHR 0xE3, CHR 0xE4, CHR 0xE5, CHR 0xE6,
      CHR 0xE7, CHR 0xE8, CHR 0xE9, CHR 0xEA, CHR 0xEB, CHR 0xEC, CHR 0xED,
      CHR 0xEE, CHR 0xEF, CHR 0xF0, CHR 0xF1, CHR 0xF2, CHR 0xF3, CHR 0xF4,
      CHR 0xF5, CHR 0xF6, CHR 0xF8, CHR 0xF9, CHR 0xFA, CHR 0xFB, CHR 0xFC,
      CHR 0xFD, CHR 0xFE]"

definition upper_letters :: string where
  "upper_letters = ''ABCDEFGHIJKLMNOPQRSTUVWXYZ'' @
     [CHR 0xC0, CHR 0xC1, CHR 0xC2, CHR 0xC3, CHR 0xC4, CHR 0xC5, CHR 0xC6,
      CHR 0xC7, CHR 0xC8, CHR 0xC9, CHR 0xCA, CHR 0xCB, CHR 0xCC, CHR 0xCD,
      CHR 0xCE, CHR 0xCF, CHR 0xD0, CHR 0xD1, CHR 0xD2, CHR 0xD3, CHR 0xD4,
      CHR 0xD5, CHR 0xD6, CHR 0xD8, CHR 0xD9, CHR 0xDA, CHR 0xDB, CHR 0xDC,
      CHR 0xDD, CHR 0xDE]"

text \<open>\<^verbatim>\<open>c.upper()\<close> for a character of such a string.\<close>

definition upper_char :: "char \<Rightarrow> cpoint list" where
  "upper_char c =
     (if c = CHR 0xDF then [L1 CHR ''S'', L1 CHR ''S'']
      else if c = CHR 0xB5 then [U039C]
      else if c = CHR 0xFF then [U0178]
      else case map_of (zip lower_letters upper_letters) c of
             Some u \<Rightarrow> [L1 u] | None \<Rightarrow> [L1 c])"

text \<open>\<^verbatim>\<open>c.lower()\<close> for a code point.\<close>

fun lower_cpoint :: "cpoint \<Rightarrow> cpoint" where
  "lower_cpoint (L1 c) =
     (case map_of (zip upper_letters lower_letters) c of Some l \<Rightarrow> L1 l | None \<Rightarrow> L1 c)"
| "lower_cpoint U039C = U03BC"
| "lower_cpoint U0178 = L1 (CHR 0xFF)"
| "lower_cpoint U03BC = U03BC"

definition py_upper :: "string \<Rightarrow> cpoint list" where
  "py_upper s = concat (map upper_char s)"

definition py_lower :: "cpoint list \<Rightarrow> cpoint list" where
  "py_lower s = map lower_cpoint s"

text \<open>A string literal of the program, as such text.\<close>

definition lit :: "string \<Rightarrow> cpoint list" where
  "lit s = map L1 s"

text \<open>\<^verbatim>\<open>sub in s\<close> on strings: \<open>sub\<close> occurs in \<open>s\<close> as a contiguous block.\<close>

fun py_in :: "string \<Rightarrow> string \<Rightarrow> bool" where
  "py_in sub [] = (sub = [])"
| "py_in sub (c # cs) = (prefix sub (c # cs) \<or> py_in sub cs)"

section \<open>The status label\<close>

text \<open>
  \<^verbatim>\<open>map_status_to_label\<close>: the guard \<^verbatim>\<open>if not status\<close> is taken on the raw argument,
  before it is stripped and uppercased.
\<close>

definition map_status_to_label :: "string \<Rightarrow> cpoint list" where
  "map_status_to_label status =
     (if status = [] then lit ''unknown''
      else let s = py_upper (py_strip status) in
        if s = lit ''AC'' then lit ''no_error''
        else if s = lit ''RE'' then lit ''runtime_error''
        else if s = lit ''TLE'' then lit ''timeout''
        else if s = lit ''MLE'' then lit ''memory_limit''
        else if s = lit ''CE'' then lit ''compile_error''
        else if s = lit ''WA'' then lit ''wrong_answer''
        else py_lower s)"


section \<open>Parsed JSON and CSV\<close>

text \<open>
  The value \<^verbatim>\<open>json.load\<close> returns. \<open>JFloat m e\<close> is the float \<open>m * 2 ^ e\<close>; \<open>JObj\<close>
  holds the items of the parsed \<^verbatim>\<open>dict\<close> in insertion order, one per key.
\<close>

datatype json =
    JNull
  | JBool bool
  | JInt int
  | JFloat int int
  | JStr string
  | JArr "json list"
  | JObj "(string \<times> json) list"

text \<open>Python's truth value of such a value (\<^verbatim>\<open>not x\<close>, \<^verbatim>\<open>x and y\<close>).\<close>

fun truthy :: "json \<Rightarrow> bool" where
  "truthy JNull = False"
| "truthy (JBool b) = b"
| "truthy (JInt i) = (i \<noteq> 0)"
| "truthy (JFloat m e) = (m \<noteq> 0)"
| "truthy (JStr s) = (s \<noteq> [])"
| "truthy (JArr xs) = (xs \<noteq> [])"
| "truthy (JObj kvs) = (kvs \<noteq> [])"

text \<open>
  A row of \<^verbatim>\<open>csv.DictReader\<close>: the fields that hold a string, by column name. A field
  that the reader fills with \<^verbatim>\<open>None\<close> (a short line) is absent here: \<^verbatim>\<open>row.get\<close> returns
  \<^verbatim>\<open>None\<close> for both.
\<close>

type_synonym row = "(string \<times> string) list"

type_synonym path = "string list"

type_synonym bytes = "char list"

text \<open>The text of a source file: the list of its Unicode code points.\<close>

type_synonym source_text = "nat list"

text \<open>
  What \<^verbatim>\<open>os.stat\<close> tells of a file and \<^verbatim>\<open>shutil.copy2\<close> carries over: the
  permission bits and the times.
\<close>

type_synonym file_stat = nat

section \<open>Errors\<close>

text \<open>
  The exceptions of the program, by the statement that raises them. The first three are
  \<^verbatim>\<open>ValueError\<close>s of \<^verbatim>\<open>load_id_list\<close> and carry the offending entry, as their message
  does. \<open>ID_file_not_found\<close>, \<open>Missing_metadata_csv\<close> and \<open>No_such_file\<close> (raised by
  \<^verbatim>\<open>open\<close>) are \<^verbatim>\<open>FileNotFoundError\<close>s. \<open>Not_iterable\<close> is the \<^verbatim>\<open>TypeError\<close> of
  \<^verbatim>\<open>for item in data\<close>. \<open>IO_error\<close> stands for whatever an operation on a file raises in
  the environment (permissions, a directory, a missing directory, a broken disk, text that
  does not parse).
\<close>

datatype error =
    Unrecognized_id_format string
  | Dict_id_missing_keys "(string \<times> json) list"
  | Unsupported_id_entry json
  | Not_iterable json
  | No_such_file path
  | ID_file_not_found path
  | Missing_metadata_csv path
  | IO_error string

fun is_FileNotFoundError :: "error \<Rightarrow> bool" where
  "is_FileNotFoundError (No_such_file p) = True"
| "is_FileNotFoundError (ID_file_not_found p) = True"
| "is_FileNotFoundError (Missing_metadata_csv p) = True"
| "is_FileNotFoundError e = False"

section \<open>The environment\<close>

text \<open>
  What the program reads and never writes, and what the operating system does. A path is
  the sequence of the components the program joins with \<^verbatim>\<open>/\<close>. For the path of an id file
  or of a metadata table, \<open>None\<close> says that \<^verbatim>\<open>exists()\<close> is false; \<open>Some (Inl e)\<close> that the
  path exists and reading it raises \<open>e\<close>; \<open>Some (Inr x)\<close> that reading yields \<open>x\<close>: the value
  of \<^verbatim>\<open>json.load\<close>, the rows of \<^verbatim>\<open>csv.DictReader\<close>.

  A source file that exists has its bytes and its \<^verbatim>\<open>stat\<close>, and each of the two calls of
  \<^verbatim>\<open>read_text\<close> that the program makes on it may raise on its own: \<open>utf8_raises\<close> is what
  the call with \<^verbatim>\<open>encoding="utf-8"\<close> raises, \<open>latin1_raises\<close> what the call with
  \<^verbatim>\<open>encoding="latin-1"\<close> raises, \<open>None\<close> when the call returns. \<open>decode\<close> is the decoder of
  \<^verbatim>\<open>read_text(encoding=..., errors="ignore")\<close>, which drops what it cannot decode and so
  returns a text for all bytes.

  \<open>copy_raw_raises raw src dest\<close> is what \<^verbatim>\<open>dest_dir.mkdir\<close> and \<^verbatim>\<open>shutil.copy2\<close> raise when
  \<open>src\<close> is copied to \<open>dest\<close> while the raw tree is \<open>raw\<close>, with the tree they leave behind;
  \<open>None\<close> when the copy is made. So a copy can fail because of what the destination
  holds: a file that an earlier copy left read-only, a directory that is not there.
\<close>

datatype encoding = Utf8 | Latin1

record src_file =
  contents :: bytes
  stat :: file_stat
  utf8_raises :: "error option"
  latin1_raises :: "error option"

type_synonym raw_tree = "path \<rightharpoonup> bytes \<times> file_stat"

record env =
  CODENET_ROOT :: path
  id_files :: "path \<Rightarrow> (error + json) option"
  metadata_csv :: "path \<Rightarrow> (error + row list) option"
  source_files :: "path \<Rightarrow> src_file option"
  decode :: "encoding \<Rightarrow> bytes \<Rightarrow> source_text"
  copy_raw_raises :: "raw_tree \<Rightarrow> path \<Rightarrow> path \<Rightarrow> (error \<times> raw_tree) option"

definition SPLIT_DIR :: path where
  "SPLIT_DIR = [''data'', ''2021-12-29-f=0.01'']"

definition OUT_DIR :: path where
  "OUT_DIR = [''data'', ''codenet_extract'']"

definition COPY_RAW :: bool where
  "COPY_RAW = True"

section \<open>The ID loader\<close>

definition is_digit :: "char \<Rightarrow> bool" where
  "is_digit c \<longleftrightarrow> c \<in> set ''0123456789''"

text \<open>
  \<^verbatim>\<open>ID_PAT.match(item)\<close> for \<^verbatim>\<open>ID_PAT = re.compile(r'^(p\d{5})_s(\d+)$')\<close>, returning the
  two groups. \<^verbatim>\<open>\d+\<close> is greedy, and giving digits back never helps since \<^verbatim>\<open>$\<close> does not
  match before a digit. Without the \<^verbatim>\<open>MULTILINE\<close> flag, \<^verbatim>\<open>$\<close> matches at the end of the
  string and also just before a newline that is the last character of the string.
\<close>

definition ID_PAT_match :: "string \<Rightarrow> (string \<times> string) option" where
  "ID_PAT_match item =
     (case item of
        [] \<Rightarrow> None
      | c # rest \<Rightarrow>
          let d5 = take 5 rest; rest1 = drop 5 rest in
          if c = CHR ''p'' \<and> length d5 = 5 \<and> list_all is_digit d5 \<and> take 2 rest1 = ''_s''
          then
            let rest2 = drop 2 rest1;
                ds = takeWhile is_digit rest2;
                after = dropWhile is_digit rest2
            in if ds \<noteq> [] \<and> (after = [] \<or> after = [CHR 0x0A]) then Some (c # d5, ds) else None
          else None)"

text \<open>The body of the loop of \<^verbatim>\<open>load_id_list\<close>: the pair for one entry, or the error raised.\<close>

fun load_id_item :: "json \<Rightarrow> error + (json \<times> json)" where
  "load_id_item (JStr item) =
     (case ID_PAT_match item of
        None \<Rightarrow> Inl (Unrecognized_id_format item)
      | Some (g1, g2) \<Rightarrow> Inr (JStr g1, JStr (''s'' @ g2)))"
| "load_id_item (JObj item) =
     (case (map_of item ''problem_id'', map_of item ''submission_id'') of
        (Some pid, Some sid) \<Rightarrow>
          if truthy pid \<and> truthy sid then Inr (pid, sid) else Inl (Dict_id_missing_keys item)
      | _ \<Rightarrow> Inl (Dict_id_missing_keys item))"
| "load_id_item item = Inl (Unsupported_id_entry item)"

fun load_id_items :: "json list \<Rightarrow> (json \<times> json) list \<Rightarrow> error + (json \<times> json) list" where
  "load_id_items [] ids = Inr ids"
| "load_id_items (item # items) ids =
     (case load_id_item item of
        Inl e \<Rightarrow> Inl e
      | Inr pr \<Rightarrow> load_id_items items (ids @ [pr]))"

text \<open>
  \<^verbatim>\<open>for item in data\<close>: a list gives its elements, a dict its keys, a string its
  characters; nothing else can be iterated.
\<close>

fun py_iter :: "json \<Rightarrow> error + json list" where
  "py_iter (JArr xs) = Inr xs"
| "py_iter (JObj kvs) = Inr (map (\<lambda>kv. JStr (fst kv)) kvs)"
| "py_iter (JStr s) = Inr (map (\<lambda>c. JStr [c]) s)"
| "py_iter data = Inl (Not_iterable data)"

definition load_id_list :: "env \<Rightarrow> path \<Rightarrow> error + (json \<times> json) list" where
  "load_id_list env fpath =
     (case id_files env fpath of
        None \<Rightarrow> Inl (No_such_file fpath)
      | Some (Inl e) \<Rightarrow> Inl e
      | Some (Inr data) \<Rightarrow>
          (case py_iter data of
             Inl e \<Rightarrow> Inl e
           | Inr items \<Rightarrow> load_id_items items []))"

section \<open>The metadata indexer\<close>

type_synonym index = "string \<rightharpoonup> string \<times> string \<times> row"

text \<open>\<^verbatim>\<open>row.get(k) or ""\<close>\<close>

definition get_or_empty :: "row \<Rightarrow> string \<Rightarrow> string" where
  "get_or_empty r k = (case map_of r k of None \<Rightarrow> [] | Some v \<Rightarrow> v)"

text \<open>
  \<^verbatim>\<open>sid = row.get("submission_id") or row.get("id")\<close>, with \<open>None\<close> where \<^verbatim>\<open>not sid\<close>
  holds and the row is passed over.
\<close>

definition row_sid :: "row \<Rightarrow> string option" where
  "row_sid r =
     (let sid = (if get_or_empty r ''submission_id'' \<noteq> [] then get_or_empty r ''submission_id''
                 else get_or_empty r ''id'')
      in if sid = [] then None else Some sid)"

definition guess_ext :: "string \<Rightarrow> string" where
  "guess_ext language =
     (if py_in ''Python'' language then ''.py''
      else if py_in ''C'' language \<and> \<not> py_in ''C++'' language then ''.c''
      else ''.cpp'')"

definition index_entry :: "string \<Rightarrow> row \<Rightarrow> string \<times> string \<times> row" where
  "index_entry sid r =
     (let language = py_strip (get_or_empty r ''language'');
          filename = py_strip (get_or_empty r ''filename'')
      in if filename = [] then (language, sid @ guess_ext language, r)
         else (language, filename, r))"

fun index_rows :: "row list \<Rightarrow> index \<Rightarrow> index" where
  "index_rows [] idx = idx"
| "index_rows (r # rs) idx =
     (case row_sid r of
        None \<Rightarrow> index_rows rs idx
      | Some sid \<Rightarrow> index_rows rs (idx(sid \<mapsto> index_entry sid r)))"

definition meta_csv :: "env \<Rightarrow> string \<Rightarrow> path" where
  "meta_csv env problem_id =
     CODENET_ROOT env @ [''Project_CodeNet'', ''metadata'', problem_id @ ''.csv'']"

definition build_submission_index :: "env \<Rightarrow> string \<Rightarrow> error + index" where
  "build_submission_index env problem_id =
     (case metadata_csv env (meta_csv env problem_id) of
        None \<Rightarrow> Inl (Missing_metadata_csv (meta_csv env problem_id))
      | Some (Inl e) \<Rightarrow> Inl e
      | Some (Inr rows) \<Rightarrow> Inr (index_rows rows Map.empty))"

definition resolve_source_path :: "env \<Rightarrow> string \<Rightarrow> string \<Rightarrow> string \<Rightarrow> string \<Rightarrow> path" where
  "resolve_source_path env problem_id submission_id language filename =
     CODENET_ROOT env @ [''Project_CodeNet'', ''data'', problem_id, language, filename]"

section \<open>The resolver and emitter\<close>

text \<open>
  The record that \<^verbatim>\<open>json.dumps\<close> turns into one output line. The line is a function of
  the record, so equal records are equal lines.
\<close>

record out_rec =
  rec_problem_id :: string
  rec_submission_id :: string
  rec_language :: string
  rec_filename :: string
  rec_status :: string
  rec_label :: "cpoint list"
  rec_code :: source_text

text \<open>
  What the program writes: the \<^verbatim>\<open>.jsonl\<close> files under \<^verbatim>\<open>OUT_DIR\<close>, each the list of its
  lines, and the tree of raw copies, each with the bytes and the \<^verbatim>\<open>stat\<close> of its source.
  The files that the environment describes are disjoint from it.
\<close>

record out_fs =
  jsonl_files :: "path \<rightharpoonup> out_rec list"
  raw_files :: raw_tree

text \<open>
  The variables of \<^verbatim>\<open>extract_split\<close> while its loops run: the three counters, the lines
  written to the open stream \<^verbatim>\<open>out\<close>, and the raw tree. The \<^verbatim>\<open>print\<close> calls are not
  modelled.
\<close>

record run_state =
  count_written :: nat
  missing_meta :: nat
  missing_file :: nat
  out :: "out_rec list"
  raw :: raw_tree

text \<open>A loop either runs to its end or stops at an exception, with the state reached.\<close>

datatype outcome = Done run_state | Aborted error run_state

text \<open>\<^verbatim>\<open>src_path.read_text(encoding=enc, errors="ignore")\<close> on a path that exists.\<close>

definition read_text :: "env \<Rightarrow> src_file \<Rightarrow> encoding \<Rightarrow> error + source_text" where
  "read_text env f enc =
     (case (case enc of Utf8 \<Rightarrow> utf8_raises f | Latin1 \<Rightarrow> latin1_raises f) of
        Some e \<Rightarrow> Inl e
      | None \<Rightarrow> Inr (decode env enc (contents f)))"

text \<open>
  \<^verbatim>\<open>try: code = read_text("utf-8") except Exception: code = read_text("latin-1")\<close>
\<close>

definition read_code :: "env \<Rightarrow> src_file \<Rightarrow> error + source_text" where
  "read_code env f =
     (case read_text env f Utf8 of
        Inr code \<Rightarrow> Inr code
      | Inl e \<Rightarrow> read_text env f Latin1)"

text \<open>\<^verbatim>\<open>meta.get("status") or meta.get("result") or ""\<close>\<close>

definition row_status :: "row \<Rightarrow> string" where
  "row_status meta =
     (if get_or_empty meta ''status'' \<noteq> [] then get_or_empty meta ''status''
      else get_or_empty meta ''result'')"

definition raw_dest :: "string \<Rightarrow> string \<Rightarrow> string \<Rightarrow> string \<Rightarrow> path" where
  "raw_dest split_name pid language filename =
     OUT_DIR @ [''raw'', split_name, pid, language, filename]"

text \<open>
  The body of \<^verbatim>\<open>for sid in sids\<close>. The line is written before the raw copy is made, so
  a copy that raises leaves the line in the file.
\<close>

definition process_sid ::
  "env \<Rightarrow> string \<Rightarrow> index \<Rightarrow> string \<Rightarrow> string \<Rightarrow> run_state \<Rightarrow> outcome" where
  "process_sid env split_name idx pid sid st =
     (case idx sid of
        None \<Rightarrow> Done (st\<lparr>missing_meta := missing_meta st + 1\<rparr>)
      | Some (language, filename, meta) \<Rightarrow>
          (case source_files env (resolve_source_path env pid sid language filename) of
             None \<Rightarrow> Done (st\<lparr>missing_file := missing_file st + 1\<rparr>)
           | Some f \<Rightarrow>
               (case read_code env f of
                  Inl e \<Rightarrow> Aborted e st
                | Inr code \<Rightarrow>
                    let status = row_status meta;
                        label = map_status_to_label status;
                        rec = \<lparr>rec_problem_id = pid, rec_submission_id = sid,
                               rec_language = language, rec_filename = filename,
                               rec_status = status, rec_label = label, rec_code = code\<rparr>;
                        st1 = st\<lparr>out := out st @ [rec], count_written := count_written st + 1\<rparr>
                    in if COPY_RAW then
                         (case copy_raw_raises env (raw st1)
                                 (resolve_source_path env pid sid language filename)
                                 (raw_dest split_name pid language filename) of
                            Some (e, tree) \<Rightarrow> Aborted e (st1\<lparr>raw := tree\<rparr>)
                          | None \<Rightarrow>
                              Done (st1\<lparr>raw := (raw st1)(raw_dest split_name pid language filename
                                       \<mapsto> (contents f, stat f))\<rparr>))
                       else Done st1)))"

fun process_sids ::
  "env \<Rightarrow> string \<Rightarrow> index \<Rightarrow> string \<Rightarrow> string list \<Rightarrow> run_state \<Rightarrow> outcome" where
  "process_sids env split_name idx pid [] st = Done st"
| "process_sids env split_name idx pid (sid # sids) st =
     (case process_sid env split_name idx pid sid st of
        Aborted e st' \<Rightarrow> Aborted e st'
      | Done st' \<Rightarrow> process_sids env split_name idx pid sids st')"

text \<open>
  The body of \<^verbatim>\<open>for pid, sids in by_problem.items()\<close>: only a \<^verbatim>\<open>FileNotFoundError\<close> of
  the indexer is caught.
\<close>

definition process_problem ::
  "env \<Rightarrow> string \<Rightarrow> string \<times> string list \<Rightarrow> run_state \<Rightarrow> outcome" where
  "process_problem env split_name grp st =
     (case build_submission_index env (fst grp) of
        Inl e \<Rightarrow>
          if is_FileNotFoundError e
          then Done (st\<lparr>missing_meta := missing_meta st + length (snd grp)\<rparr>)
          else Aborted e st
      | Inr idx \<Rightarrow> process_sids env split_name idx (fst grp) (snd grp) st)"

fun process_problems ::
  "env \<Rightarrow> string \<Rightarrow> (string \<times> string list) list \<Rightarrow> run_state \<Rightarrow> outcome" where
  "process_problems env split_name [] st = Done st"
| "process_problems env split_name (grp # grps) st =
     (case process_problem env split_name grp st of
        Aborted e st' \<Rightarrow> Aborted e st'
      | Done st' \<Rightarrow> process_problems env split_name grps st')"

text \<open>
  \<^verbatim>\<open>by_problem.setdefault(pid, []).append(sid)\<close> on a dict kept as the list of its items
  in insertion order, which is the order \<^verbatim>\<open>by_problem.items()\<close> yields.
\<close>

fun setdefault_append ::
  "(string \<times> string list) list \<Rightarrow> string \<Rightarrow> string \<Rightarrow> (string \<times> string list) list" where
  "setdefault_append [] pid sid = [(pid, [sid])]"
| "setdefault_append ((p, sids) # rest) pid sid =
     (if p = pid then (p, sids @ [sid]) # rest
      else (p, sids) # setdefault_append rest pid sid)"

fun group_by_problem ::
  "(string \<times> string) list \<Rightarrow> (string \<times> string list) list \<Rightarrow> (string \<times> string list) list" where
  "group_by_problem [] by_problem = by_problem"
| "group_by_problem ((pid, sid) # ids) by_problem =
     group_by_problem ids (setdefault_append by_problem pid sid)"

text \<open>
  The end of a split: a split that ran to its end, with its counters, or an exception
  that left \<^verbatim>\<open>extract_split\<close>; both with the files as they are then.
\<close>

datatype result = Finished run_state out_fs | Raised error out_fs

fun result_fs :: "result \<Rightarrow> out_fs" where
  "result_fs (Finished st fs) = fs"
| "result_fs (Raised e fs) = fs"

text \<open>
  \<^verbatim>\<open>extract_split\<close> from the opening of the output file on. Opening with mode \<^verbatim>\<open>"w"\<close>
  empties the file; leaving the \<^verbatim>\<open>with\<close> block, also by an exception, closes it with
  the lines written so far. Opening the file and writing a line to it are taken to
  succeed.
\<close>

definition extract_ids :: "env \<Rightarrow> string \<Rightarrow> (string \<times> string) list \<Rightarrow> out_fs \<Rightarrow> result" where
  "extract_ids env split_name ids fs =
     (let out_jsonl = OUT_DIR @ [split_name @ ''.jsonl''];
          by_problem = group_by_problem ids [];
          st0 = \<lparr>count_written = 0, missing_meta = 0, missing_file = 0, out = [],
                 raw = raw_files fs\<rparr>
      in case process_problems env split_name by_problem st0 of
           Done st \<Rightarrow>
             Finished st \<lparr>jsonl_files = (jsonl_files fs)(out_jsonl \<mapsto> out st), raw_files = raw st\<rparr>
         | Aborted e st \<Rightarrow>
             Raised e \<lparr>jsonl_files = (jsonl_files fs)(out_jsonl \<mapsto> out st), raw_files = raw st\<rparr>)"

text \<open>
  The loader returns what the entries hold; the rest of the program is modelled for
  identifiers that are strings, as the annotation \<^verbatim>\<open>List[Tuple[str, str]]\<close> has them.
\<close>

fun str_ids :: "(json \<times> json) list \<Rightarrow> (string \<times> string) list option" where
  "str_ids [] = Some []"
| "str_ids ((JStr pid, JStr sid) # ids) =
     (case str_ids ids of None \<Rightarrow> None | Some r \<Rightarrow> Some ((pid, sid) # r))"
| "str_ids (other # ids) = None"

text \<open>
  \<^verbatim>\<open>extract_split\<close>. The result is \<open>None\<close> where the loader returned an identifier that
  is not a string: the model ends there and says nothing of what the program does with
  such an identifier, and every statement about a split is about a result \<open>Some r\<close>.
\<close>

definition extract_split :: "env \<Rightarrow> string \<Rightarrow> path \<Rightarrow> out_fs \<Rightarrow> result option" where
  "extract_split env split_name id_file fs =
     (if id_files env id_file = None then Some (Raised (ID_file_not_found id_file) fs)
      else
        (case load_id_list env id_file of
           Inl e \<Rightarrow> Some (Raised e fs)
         | Inr ids \<Rightarrow>
             (case str_ids ids of
                None \<Rightarrow> None
              | Some ids' \<Rightarrow> Some (extract_ids env split_name ids' fs))))"

text \<open>\<^verbatim>\<open>main\<close>: the three splits in turn; an exception ends the run.\<close>

definition main :: "env \<Rightarrow> out_fs \<Rightarrow> result option" where
  "main env fs =
     (case extract_split env ''train'' (SPLIT_DIR @ [''train-ids.json'']) fs of
        None \<Rightarrow> None
      | Some (Raised e fs1) \<Rightarrow> Some (Raised e fs1)
      | Some (Finished st1 fs1) \<Rightarrow>
          (case extract_split env ''valid'' (SPLIT_DIR @ [''valid-ids.json'']) fs1 of
             None \<Rightarrow> None
           | Some (Raised e fs2) \<Rightarrow> Some (Raised e fs2)
           | Some (Finished st2 fs2) \<Rightarrow>
               extract_split env ''test'' (SPLIT_DIR @ [''test-ids.json'']) fs2))"

section \<open>Notions used in the statements\<close>


text \<open>The environment in which no raw copy raises, and otherwise as \<open>env\<close>.\<close>

definition no_copy_errors :: "env \<Rightarrow> env" where
  "no_copy_errors env = env\<lparr>copy_raw_raises := (\<lambda>raw src dest. None)\<rparr>"

text \<open>An output directory that holds no file yet.\<close>

definition empty_fs :: out_fs where
  "empty_fs = \<lparr>jsonl_files = Map.empty, raw_files = Map.empty\<rparr>"

text \<open>
  The files \<open>w\<close> laid over the files \<open>fs\<close>: a file of \<open>w\<close> replaces the file of \<open>fs\<close> at
  the same path. \<open>rebase fs r\<close> is the result \<open>r\<close> of a run that started with no files, moved
  to a start with the files \<open>fs\<close>.
\<close>

definition over :: "out_fs \<Rightarrow> out_fs \<Rightarrow> out_fs" where
  "over fs w =
     \<lparr>jsonl_files = jsonl_files fs ++ jsonl_files w, raw_files = raw_files fs ++ raw_files w\<rparr>"

fun rebase :: "out_fs \<Rightarrow> result \<Rightarrow> result" where
  "rebase fs (Finished st w) = Finished (st\<lparr>raw := raw_files fs ++ raw st\<rparr>) (over fs w)"
| "rebase fs (Raised e w) = Raised e (over fs w)"

fun on_raw :: "raw_tree \<Rightarrow> outcome \<Rightarrow> outcome" where
  "on_raw m (Done st) = Done (st\<lparr>raw := m ++ raw st\<rparr>)"
| "on_raw m (Aborted e st) = Aborted e (st\<lparr>raw := m ++ raw st\<rparr>)"

section \<open>An example environment\<close>

text \<open>
  The end-to-end scenario of the specification, extended: the table of problem \<^verbatim>\<open>p00001\<close>
  has the row of submission \<^verbatim>\<open>s000000001\<close> (Python, \<^verbatim>\<open>a.py\<close>, AC), a row of
  \<^verbatim>\<open>s000000002\<close> with an empty filename, whose file does not exist, and a row of
  \<^verbatim>\<open>s000000003\<close> (C, \<^verbatim>\<open>b.c\<close>); problem \<^verbatim>\<open>p00002\<close> has no table. The file
  \<^verbatim>\<open>data/p00001/Python/a.py\<close> holds \<^verbatim>\<open>print(1)\<close>, and \<^verbatim>\<open>data/p00001/C/b.c\<close> is a file no
  user may write. The train split lists \<^verbatim>\<open>s000000001\<close> twice. Every file can be read and
  every raw copy is made.
\<close>

definition example_rows :: "row list" where
  "example_rows =
     [[(''submission_id'', ''s000000001''), (''language'', ''Python''),
       (''filename'', ''a.py''), (''status'', ''AC'')],
      [(''submission_id'', ''s000000002''), (''language'', ''C++''),
       (''filename'', ''''), (''status'', ''WA'')],
      [(''id'', ''s000000003''), (''language'', ''C''),
       (''filename'', ''b.c''), (''result'', ''RE'')]]"

definition example_train :: "json list" where
  "example_train =
     [JStr ''p00001_s000000001'',
      JStr ''p00002_s000000005'',
      JObj [(''problem_id'', JStr ''p00001''), (''submission_id'', JStr ''s000000002'')],
      JStr ''p00001_s000000001'',
      JStr ''p00001_s000000009'']"

definition example_env :: env where
  "example_env =
     \<lparr>CODENET_ROOT = [''codenet''],
      id_files = (\<lambda>p.
        if p = [''data'', ''2021-12-29-f=0.01'', ''train-ids.json'']
        then Some (Inr (JArr example_train))
        else if p = [''data'', ''2021-12-29-f=0.01'', ''valid-ids.json'']
        then Some (Inr (JArr [JStr ''p00001_s000000003'', JStr ''p00001_s000000001'']))
        else if p = [''data'', ''2021-12-29-f=0.01'', ''test-ids.json'']
        then Some (Inr (JArr [JStr ''p00001_s000000001'']))
        else None),
      metadata_csv = (\<lambda>p.
        if p = [''codenet'', ''Project_CodeNet'', ''metadata'', ''p00001.csv'']
        then Some (Inr example_rows) else None),
      source_files = (\<lambda>p.
        if p = [''codenet'', ''Project_CodeNet'', ''data'', ''p00001'', ''Python'', ''a.py'']
        then Some \<lparr>contents = ''print(1)'', stat = 0x1A4, utf8_raises = None,
                     latin1_raises = None\<rparr>
        else if p = [''codenet'', ''Project_CodeNet'', ''data'', ''p00001'', ''C'', ''b.c'']
        then Some \<lparr>contents = ''int main(){}'', stat = 0x124, utf8_raises = None,
                     latin1_raises = None\<rparr>
        else None),
      decode = (\<lambda>enc bs. map of_char bs),
      copy_raw_raises = (\<lambda>raw src dest. None)\<rparr>"

section \<open>Properties of the status label\<close>

lemmas string_eval =
  py_strip_def py_isspace_def py_upper_def py_lower_def upper_char_def lit_def
  lower_letters_def upper_letters_def

text \<open>
  The table, on the examples of the specification and on statuses in another case or with
  whitespace around them; a status outside the table comes back in lower case.
\<close>

lemma map_status_to_label_examples:
  "map_status_to_label ''ac'' = lit ''no_error''"
  "map_status_to_label ''AC'' = lit ''no_error''"
  "map_status_to_label '''' = lit ''unknown''"
  "map_status_to_label ''XX'' = lit ''xx''"
  "map_status_to_label '' Tle '' = lit ''timeout''"
  "map_status_to_label ''Accepted'' = lit ''accepted''"
  by (simp_all add: map_status_to_label_def string_eval)

text \<open>
  Beyond ASCII: a no-break space is stripped; the sharp s comes back as two letters and the
  micro sign as the small mu, since the status is uppercased before it is lowercased.
\<close>

lemma map_status_to_label_latin1:
  "map_status_to_label [CHR 0xA0, CHR ''A'', CHR ''C'', CHR 0xA0] = lit ''no_error''"
  "map_status_to_label [CHR 0xDF] = lit ''ss''"
  "map_status_to_label [CHR 0xB5] = [U03BC]"
  "map_status_to_label [CHR 0xC9] = [L1 (CHR 0xE9)]"
  by (simp_all add: map_status_to_label_def string_eval)

lemma map_status_to_label_missing:
  "get_or_empty meta ''status'' = [] \<Longrightarrow> get_or_empty meta ''result'' = [] \<Longrightarrow>
     map_status_to_label (row_status meta) = lit ''unknown''"
  by (simp add: row_status_def map_status_to_label_def)

section \<open>The status label: claim C1\<close>

text \<open>
  C1 at the status of two blanks, which a row of a metadata table can hold and which the
  loop passes on as it is. The claim says that a status that is empty after trimming maps
  to \<^verbatim>\<open>unknown\<close>. The function tests \<^verbatim>\<open>if not status\<close> before it strips the status: the two
  blanks pass the test, are stripped to the empty string, which is not in the table, and
  the empty string is returned as the label. The indexer, in the same file, strips a
  filename before it tests \<^verbatim>\<open>if not filename\<close>.
\<close>

theorem map_status_to_label_blank:
  "row_status [(''submission_id'', ''s1''), (''status'', ''  '')] = ''  ''
   \<and> py_strip ''  '' = []
   \<and> map_status_to_label ''  '' = []
   \<and> map_status_to_label ''  '' \<noteq> lit ''unknown''
   \<and> map_status_to_label '''' = lit ''unknown''"
  by (simp add: map_status_to_label_def row_status_def get_or_empty_def string_eval)

section \<open>Properties of the ID loader\<close>

lemma list_all_is_digit_takeWhile:
  "list_all is_digit ds \<Longrightarrow> takeWhile is_digit (ds @ rest) = ds @ takeWhile is_digit rest"
  by (induction ds) auto

lemma list_all_is_digit_dropWhile:
  "list_all is_digit ds \<Longrightarrow> dropWhile is_digit (ds @ rest) = dropWhile is_digit rest"
  by (induction ds) auto

lemma ID_PAT_match_valid:
  assumes "length d5 = 5" "list_all is_digit d5" "ds \<noteq> []" "list_all is_digit ds"
  shows "ID_PAT_match (''p'' @ d5 @ ''_s'' @ ds) = Some (''p'' @ d5, ds)"
  using assms
  by (simp add: ID_PAT_match_def list_all_iff Let_def takeWhile_eq_all_conv [THEN iffD2])

lemma ID_PAT_match_valid_newline:
  assumes "length d5 = 5" "list_all is_digit d5" "ds \<noteq> []" "list_all is_digit ds"
  shows "ID_PAT_match (''p'' @ d5 @ ''_s'' @ ds @ [CHR 0x0A]) = Some (''p'' @ d5, ds)"
  using assms list_all_is_digit_takeWhile [of ds "[CHR 0x0A]"]
    list_all_is_digit_dropWhile [of ds "[CHR 0x0A]"]
  by (simp add: ID_PAT_match_def is_digit_def)

lemma ID_PAT_match_SomeD:
  assumes "ID_PAT_match item = Some (g1, g2)"
  shows "\<exists>d5. length d5 = 5 \<and> list_all is_digit d5 \<and> g2 \<noteq> [] \<and> list_all is_digit g2 \<and>
           g1 = ''p'' @ d5 \<and> (item = g1 @ ''_s'' @ g2 \<or> item = g1 @ ''_s'' @ g2 @ [CHR 0x0A])"
proof (cases item)
  case Nil
  with assms show ?thesis by (simp add: ID_PAT_match_def)
next
  case (Cons c rest)
  define d5 where "d5 = take 5 rest"
  define rest1 where "rest1 = drop 5 rest"
  define rest2 where "rest2 = drop 2 rest1"
  define ds where "ds = takeWhile is_digit rest2"
  define after where "after = dropWhile is_digit rest2"
  from assms Cons have c: "c = CHR ''p''" and l: "length d5 = 5" and d: "list_all is_digit d5"
    and u: "take 2 rest1 = ''_s''" and ne: "ds \<noteq> []"
    and af: "after = [] \<or> after = [CHR 0x0A]" and g1: "g1 = c # d5" and g2: "g2 = ds"
    unfolding ID_PAT_match_def d5_def rest1_def rest2_def ds_def after_def
    by (auto simp: Let_def split: if_splits)
  have r: "rest = d5 @ rest1" by (simp add: d5_def rest1_def)
  have r1: "rest1 = ''_s'' @ rest2" using u by (metis append_take_drop_id rest2_def)
  have r2: "rest2 = ds @ after" by (simp add: ds_def after_def)
  have dd: "list_all is_digit ds"
    unfolding ds_def list_all_iff by (auto dest: set_takeWhileD)
  from af have "item = g1 @ ''_s'' @ g2 \<or> item = g1 @ ''_s'' @ g2 @ [CHR 0x0A]"
    using Cons r r1 r2 g1 g2 by auto
  with c l d ne dd g1 g2 show ?thesis by auto
qed

lemma ID_PAT_match_Some_iff:
  "ID_PAT_match item = Some (g1, g2) \<longleftrightarrow>
     (\<exists>d5. length d5 = 5 \<and> list_all is_digit d5 \<and> g2 \<noteq> [] \<and> list_all is_digit g2 \<and>
           g1 = ''p'' @ d5 \<and> (item = g1 @ ''_s'' @ g2 \<or> item = g1 @ ''_s'' @ g2 @ [CHR 0x0A]))"
  using ID_PAT_match_SomeD ID_PAT_match_valid ID_PAT_match_valid_newline
  by (metis append.assoc)


lemma load_id_items_Inr_acc:
  "load_id_items items acc = Inr ids \<longleftrightarrow>
     (\<exists>new. ids = acc @ new \<and> list_all2 (\<lambda>x pr. load_id_item x = Inr pr) items new)"
proof (induction items arbitrary: acc)
  case Nil
  show ?case by auto
next
  case (Cons x xs)
  show ?case
  proof (cases "load_id_item x")
    case (Inl e)
    have "\<not> list_all2 (\<lambda>x pr. load_id_item x = Inr pr) (x # xs) new" for new
      using Inl by (cases new) simp_all
    with Inl show ?thesis by simp
  next
    case (Inr pr)
    have step: "load_id_items (x # xs) acc = load_id_items xs (acc @ [pr])"
      using Inr by simp
    show ?thesis
    proof
      assume "load_id_items (x # xs) acc = Inr ids"
      with step Cons.IH [of "acc @ [pr]"] obtain new where
        n: "ids = (acc @ [pr]) @ new" "list_all2 (\<lambda>x pr. load_id_item x = Inr pr) xs new"
        by auto
      have "ids = acc @ (pr # new)" using n(1) by simp
      moreover have "list_all2 (\<lambda>x pr. load_id_item x = Inr pr) (x # xs) (pr # new)"
        using n(2) Inr by simp
      ultimately show "\<exists>new. ids = acc @ new \<and> list_all2 (\<lambda>x pr. load_id_item x = Inr pr) (x # xs) new"
        by blast
    next
      assume "\<exists>new. ids = acc @ new \<and> list_all2 (\<lambda>x pr. load_id_item x = Inr pr) (x # xs) new"
      then obtain new where n: "ids = acc @ new"
        "list_all2 (\<lambda>x pr. load_id_item x = Inr pr) (x # xs) new" by blast
      from n(2) obtain p new' where n': "new = p # new'" "load_id_item x = Inr p"
        "list_all2 (\<lambda>x pr. load_id_item x = Inr pr) xs new'"
        by (cases new) simp_all
      from n'(2) Inr have "p = pr" by simp
      with n n' have "ids = (acc @ [pr]) @ new'" by simp
      with n'(3) have "load_id_items xs (acc @ [pr]) = Inr ids"
        using Cons.IH [of "acc @ [pr]"] by blast
      with step show "load_id_items (x # xs) acc = Inr ids" by simp
    qed
  qed
qed

lemma load_id_items_Inr:
  "load_id_items items [] = Inr ids \<longleftrightarrow> list_all2 (\<lambda>x pr. load_id_item x = Inr pr) items ids"
  by (simp add: load_id_items_Inr_acc)

lemma load_id_items_first_error:
  assumes "\<forall>y\<in>set pre. \<exists>pr. load_id_item y = Inr pr" and "load_id_item x = Inl e"
  shows "load_id_items (pre @ x # post) acc = Inl e"
  using assms
proof (induction pre arbitrary: acc)
  case Nil
  then show ?case by simp
next
  case (Cons y ys)
  then obtain pr where "load_id_item y = Inr pr" by auto
  with Cons show ?case by simp
qed

lemma load_id_items_error:
  assumes "x \<in> set items" and "load_id_item x = Inl e"
  shows "\<exists>e'. load_id_items items acc = Inl e'"
proof (cases "load_id_items items acc")
  case (Inl e')
  then show ?thesis by blast
next
  case (Inr ids)
  then obtain new where "list_all2 (\<lambda>x pr. load_id_item x = Inr pr) items new"
    by (auto simp: load_id_items_Inr_acc)
  moreover from assms(1) obtain i where "i < length items" "items ! i = x"
    by (auto simp: in_set_conv_nth)
  ultimately have "load_id_item x = Inr (new ! i)"
    by (auto simp: list_all2_conv_all_nth)
  with assms(2) show ?thesis by simp
qed

lemma load_id_item_token:
  assumes "length d5 = 5" "list_all is_digit d5" "ds \<noteq> []" "list_all is_digit ds"
  shows "load_id_item (JStr (''p'' @ d5 @ ''_s'' @ ds)) = Inr (JStr (''p'' @ d5), JStr (''s'' @ ds))"
  using ID_PAT_match_valid [OF assms] by simp

lemma ID_PAT_match_None:
  assumes "\<And>d5 ds. length d5 = 5 \<Longrightarrow> list_all is_digit d5 \<Longrightarrow> ds \<noteq> [] \<Longrightarrow> list_all is_digit ds \<Longrightarrow>
             item \<noteq> ''p'' @ d5 @ ''_s'' @ ds \<and> item \<noteq> ''p'' @ d5 @ ''_s'' @ ds @ [CHR 0x0A]"
  shows "ID_PAT_match item = None"
proof (cases "ID_PAT_match item")
  case None
  then show ?thesis .
next
  case (Some g)
  obtain g1 g2 where "g = (g1, g2)" by (cases g)
  with Some obtain d5 where "length d5 = 5" "list_all is_digit d5" "g2 \<noteq> []" "list_all is_digit g2"
    "g1 = ''p'' @ d5" "item = g1 @ ''_s'' @ g2 \<or> item = g1 @ ''_s'' @ g2 @ [CHR 0x0A]"
    using ID_PAT_match_SomeD [of item g1 g2] by blast
  with assms [of d5 g2] show ?thesis by simp
qed

lemma load_id_item_no_match:
  "ID_PAT_match item = None \<Longrightarrow> load_id_item (JStr item) = Inl (Unrecognized_id_format item)"
  by simp

lemma load_id_item_dict:
  "load_id_item (JObj item) =
     (case map_of item ''problem_id'' of
        None \<Rightarrow> Inl (Dict_id_missing_keys item)
      | Some pid \<Rightarrow>
          (case map_of item ''submission_id'' of
             None \<Rightarrow> Inl (Dict_id_missing_keys item)
           | Some sid \<Rightarrow>
               if truthy pid \<and> truthy sid then Inr (pid, sid)
               else Inl (Dict_id_missing_keys item)))"
  by (simp split: option.splits)

lemma load_id_item_other_shape:
  "load_id_item JNull = Inl (Unsupported_id_entry JNull)"
  "load_id_item (JBool b) = Inl (Unsupported_id_entry (JBool b))"
  "load_id_item (JInt i) = Inl (Unsupported_id_entry (JInt i))"
  "load_id_item (JFloat m e) = Inl (Unsupported_id_entry (JFloat m e))"
  "load_id_item (JArr xs) = Inl (Unsupported_id_entry (JArr xs))"
  by simp_all

lemma load_id_list_first_error:
  assumes "id_files env fpath = Some (Inr (JArr (pre @ x # post)))"
    and "\<forall>y\<in>set pre. \<exists>pr. load_id_item y = Inr pr" and "load_id_item x = Inl e"
  shows "load_id_list env fpath = Inl e"
  using assms(1) load_id_items_first_error [OF assms(2,3)] by (simp add: load_id_list_def)

lemma load_id_list_some_error:
  assumes "id_files env fpath = Some (Inr (JArr items))"
    and "x \<in> set items" and "load_id_item x = Inl e"
  shows "\<exists>e'. load_id_list env fpath = Inl e'"
  using assms(1) load_id_items_error [OF assms(2,3)] by (simp add: load_id_list_def)

text \<open>
  The loader runs before the output file of the split is opened: when it raises, the
  exception leaves \<^verbatim>\<open>extract_split\<close> with no file written.
\<close>

lemma extract_split_load_error:
  assumes "id_files env id_file \<noteq> None" and "load_id_list env id_file = Inl e"
  shows "extract_split env split_name id_file fs = Some (Raised e fs)"
  using assms by (auto simp: extract_split_def)

lemma extract_split_fail_fast:
  assumes "id_files env id_file = Some (Inr (JArr (pre @ x # post)))"
    and "\<forall>y\<in>set pre. \<exists>pr. load_id_item y = Inr pr" and "load_id_item x = Inl e"
  shows "extract_split env split_name id_file fs = Some (Raised e fs)"
  using assms(1) load_id_list_first_error [OF assms] by (simp add: extract_split_def)

section \<open>The ID loader on a valid token: claim C2\<close>

text \<open>
  C2. A string entry made of \<^verbatim>\<open>p\<close>, five digits, \<^verbatim>\<open>_s\<close> and one or more digits is turned
  into exactly the pair of \<^verbatim>\<open>p\<close> with the five digits and \<^verbatim>\<open>s\<close> with the trailing digits;
  whenever the loader returns a list for an id file, the pair stands in it at the
  position of the entry. The token \<^verbatim>\<open>p00023_s006384060\<close> gives \<^verbatim>\<open>p00023\<close> and
  \<^verbatim>\<open>s006384060\<close>.
\<close>

theorem load_id_list_valid_token:
  assumes "length d5 = 5" and "list_all is_digit d5" and "ds \<noteq> []" and "list_all is_digit ds"
  shows "load_id_item (JStr (''p'' @ d5 @ ''_s'' @ ds)) = Inr (JStr (''p'' @ d5), JStr (''s'' @ ds))
    \<and> (id_files env fpath = Some (Inr (JArr items)) \<and> load_id_list env fpath = Inr ids \<and>
         i < length items \<and> items ! i = JStr (''p'' @ d5 @ ''_s'' @ ds)
         \<longrightarrow> length ids = length items \<and> ids ! i = (JStr (''p'' @ d5), JStr (''s'' @ ds)))
    \<and> load_id_item (JStr ''p00023_s006384060'') = Inr (JStr ''p00023'', JStr ''s006384060'')"
proof -
  note tok = load_id_item_token [OF assms]
  have "length ids = length items \<and> ids ! i = (JStr (''p'' @ d5), JStr (''s'' @ ds))"
    if f: "id_files env fpath = Some (Inr (JArr items))" and l: "load_id_list env fpath = Inr ids"
      and i: "i < length items" and it: "items ! i = JStr (''p'' @ d5 @ ''_s'' @ ds)"
  proof -
    from f l have "load_id_items items [] = Inr ids"
      by (simp add: load_id_list_def)
    then have a: "list_all2 (\<lambda>x pr. load_id_item x = Inr pr) items ids"
      by (simp add: load_id_items_Inr)
    then have "load_id_item (items ! i) = Inr (ids ! i)"
      using i by (simp add: list_all2_conv_all_nth)
    with it tok a show ?thesis by (simp add: list_all2_lengthD)
  qed
  moreover have "load_id_item (JStr ''p00023_s006384060'') = Inr (JStr ''p00023'', JStr ''s006384060'')"
    by (simp add: ID_PAT_match_def is_digit_def)
  ultimately show ?thesis using tok by blast
qed

theorem load_id_list_valid_token_witness:
  "length ''00001'' = 5 \<and> list_all is_digit ''00001'' \<and> ''000000001'' \<noteq> []
   \<and> list_all is_digit ''000000001''
   \<and> id_files example_env (SPLIT_DIR @ [''train-ids.json'']) = Some (Inr (JArr example_train))
   \<and> 3 < length example_train \<and> example_train ! 3 = JStr ''p00001_s000000001''
   \<and> (\<exists>ids. load_id_list example_env (SPLIT_DIR @ [''train-ids.json'']) = Inr ids
         \<and> length ids = length example_train
         \<and> ids ! 3 = (JStr ''p00001'', JStr ''s000000001''))
   \<and> load_id_item (JStr ''p00001_s000000001'') = Inr (JStr ''p00001'', JStr ''s000000001'')"
proof -
  have d: "length ''00001'' = 5" "list_all is_digit ''00001''" "''000000001'' \<noteq> []"
    "list_all is_digit ''000000001''"
    by (simp_all add: is_digit_def)
  have f: "id_files example_env (SPLIT_DIR @ [''train-ids.json'']) = Some (Inr (JArr example_train))"
    by (simp add: example_env_def SPLIT_DIR_def)
  have i: "3 < length example_train" "example_train ! 3 = JStr (''p'' @ ''00001'' @ ''_s'' @ ''000000001'')"
    by (simp_all add: example_train_def)
  have l: "load_id_list example_env (SPLIT_DIR @ [''train-ids.json'']) = Inr
     [(JStr ''p00001'', JStr ''s000000001''), (JStr ''p00002'', JStr ''s000000005''),
      (JStr ''p00001'', JStr ''s000000002''), (JStr ''p00001'', JStr ''s000000001''),
      (JStr ''p00001'', JStr ''s000000009'')]"
    by code_simp
  let ?ids = "[(JStr ''p00001'', JStr ''s000000001''), (JStr ''p00002'', JStr ''s000000005''),
      (JStr ''p00001'', JStr ''s000000002''), (JStr ''p00001'', JStr ''s000000001''),
      (JStr ''p00001'', JStr ''s000000009'')]"
  note T = load_id_list_valid_token [OF d, of example_env "SPLIT_DIR @ [''train-ids.json'']"
      example_train ?ids 3]
  from T f l i have r: "length ?ids = length example_train
      \<and> ?ids ! 3 = (JStr (''p'' @ ''00001''), JStr (''s'' @ ''000000001''))"
    by blast
  from T have t: "load_id_item (JStr (''p'' @ ''00001'' @ ''_s'' @ ''000000001''))
      = Inr (JStr (''p'' @ ''00001''), JStr (''s'' @ ''000000001''))"
    by blast
  from l r have ex: "\<exists>ids. load_id_list example_env (SPLIT_DIR @ [''train-ids.json'']) = Inr ids
         \<and> length ids = length example_train
         \<and> ids ! 3 = (JStr ''p00001'', JStr ''s000000001'')"
    by simp
  from t have t': "load_id_item (JStr ''p00001_s000000001'') = Inr (JStr ''p00001'', JStr ''s000000001'')"
    by simp
  from i have i': "example_train ! 3 = JStr ''p00001_s000000001''" by simp
  from d f i(1) i' ex t' show ?thesis by blast
qed

section \<open>The ID loader on a malformed entry: claim C3\<close>

text \<open>
  C3 at the input \<^verbatim>\<open>["p00023_s006384060\n"]\<close>: the token is not of the form \<^verbatim>\<open>p\<close>, five
  digits, \<^verbatim>\<open>_s\<close>, digits, since a newline follows the digits, and the loader does not
  fail on it. \<^verbatim>\<open>$\<close> matches before the final newline, so \<^verbatim>\<open>ID_PAT.match\<close> succeeds and the
  loader returns the pair \<^verbatim>\<open>p00023\<close>, \<^verbatim>\<open>s006384060\<close>, dropping the newline. A token with
  two newlines at its end is rejected. In the example environment, a train split whose
  only entry is such a token runs to its end and writes a record.
\<close>

theorem load_id_list_newline_token:
  "ID_PAT_match (''p00023_s006384060'' @ [CHR 0x0A]) = Some (''p00023'', ''006384060'')
   \<and> load_id_item (JStr (''p00023_s006384060'' @ [CHR 0x0A]))
       = Inr (JStr ''p00023'', JStr ''s006384060'')
   \<and> load_id_items [JStr (''p00023_s006384060'' @ [CHR 0x0A])] []
       = Inr [(JStr ''p00023'', JStr ''s006384060'')]
   \<and> load_id_item (JStr (''p00023_s006384060'' @ [CHR 0x0A, CHR 0x0A]))
       = Inl (Unrecognized_id_format (''p00023_s006384060'' @ [CHR 0x0A, CHR 0x0A]))
   \<and> (case extract_split
          (example_env\<lparr>id_files :=
             (\<lambda>p. Some (Inr (JArr [JStr (''p00001_s000000001'' @ [CHR 0x0A])])))\<rparr>)
          ''train'' (SPLIT_DIR @ [''train-ids.json'']) empty_fs of
        Some (Finished st fs) \<Rightarrow>
          count_written st = 1 \<and> map rec_submission_id (out st) = [''s000000001'']
      | _ \<Rightarrow> False)"
proof -
  have "case extract_split
          (example_env\<lparr>id_files :=
             (\<lambda>p. Some (Inr (JArr [JStr (''p00001_s000000001'' @ [CHR 0x0A])])))\<rparr>)
          ''train'' (SPLIT_DIR @ [''train-ids.json'']) empty_fs of
        Some (Finished st fs) \<Rightarrow>
          count_written st = 1 \<and> map rec_submission_id (out st) = [''s000000001'']
      | _ \<Rightarrow> False"
    by code_simp
  then show ?thesis
    by (simp add: ID_PAT_match_def is_digit_def Let_def)
qed

section \<open>Properties of the metadata indexer\<close>

lemma py_in_sublist: "py_in sub s \<longleftrightarrow> sublist sub s"
  by (induction s) (simp_all add: sublist_Cons_right)

lemma sublist_dropWhile:
  assumes "sub \<noteq> []" and "\<not> P (hd sub)"
  shows "sublist sub (dropWhile P s) \<longleftrightarrow> sublist sub s"
proof (induction s)
  case Nil
  show ?case by simp
next
  case (Cons x xs)
  show ?case
  proof (cases "P x")
    case True
    have "\<not> prefix sub (x # xs)"
    proof
      assume "prefix sub (x # xs)"
      with assms(1) have "hd sub = x" by (cases sub) simp_all
      with assms(2) True show False by simp
    qed
    with True Cons show ?thesis by (simp add: sublist_Cons_right)
  next
    case False
    then show ?thesis by simp
  qed
qed

lemma py_in_strip:
  assumes "sub \<noteq> []" and "\<not> py_isspace (hd sub)" and "\<not> py_isspace (last sub)"
  shows "py_in sub (py_strip s) \<longleftrightarrow> py_in sub s"
proof -
  have r: "rev sub \<noteq> []" "\<not> py_isspace (hd (rev sub))"
    using assms by (simp_all add: hd_rev)
  have "sublist sub (py_strip s) \<longleftrightarrow> sublist (rev sub) (dropWhile py_isspace (rev (dropWhile py_isspace s)))"
    unfolding py_strip_def using sublist_rev [of sub "py_strip s"]
    by (metis rev_rev_ident sublist_rev)
  also have "\<dots> \<longleftrightarrow> sublist (rev sub) (rev (dropWhile py_isspace s))"
    by (rule sublist_dropWhile [of "rev sub" py_isspace, OF r])
  also have "\<dots> \<longleftrightarrow> sublist sub (dropWhile py_isspace s)"
    by simp
  also have "\<dots> \<longleftrightarrow> sublist sub s"
    by (rule sublist_dropWhile [of sub py_isspace, OF assms(1) assms(2)])
  finally show ?thesis by (simp add: py_in_sublist)
qed

lemma py_in_strip_Python: "py_in ''Python'' (py_strip language) = py_in ''Python'' language"
  by (rule py_in_strip) (simp_all add: py_isspace_def)

lemma py_in_strip_C: "py_in ''C'' (py_strip language) = py_in ''C'' language"
  by (rule py_in_strip) (simp_all add: py_isspace_def)

lemma py_in_strip_Cpp: "py_in ''C++'' (py_strip language) = py_in ''C++'' language"
  by (rule py_in_strip) (simp_all add: py_isspace_def)

lemma guess_ext_strip: "guess_ext (py_strip language) = guess_ext language"
  unfolding guess_ext_def py_in_strip_Python py_in_strip_C py_in_strip_Cpp by (rule refl)

lemma py_strip_id:
  assumes "s \<noteq> []" and "\<not> py_isspace (hd s)" and "\<not> py_isspace (last s)"
  shows "py_strip s = s"
proof -
  from assms(1,2) have a: "dropWhile py_isspace s = s" by (cases s) simp_all
  have "hd (rev s) = last s" by (simp add: hd_rev)
  with assms(1,3) have "rev s \<noteq> []" "\<not> py_isspace (hd (rev s))" by simp_all
  then have "dropWhile py_isspace (rev s) = rev s" by (cases "rev s") simp_all
  with a show ?thesis by (simp add: py_strip_def)
qed

lemma index_rows_append:
  "index_rows (xs @ ys) idx = index_rows ys (index_rows xs idx)"
  by (induction xs arbitrary: idx) (simp_all split: option.splits)

lemma index_rows_other:
  "\<forall>r\<in>set rs. row_sid r \<noteq> Some sid \<Longrightarrow> index_rows rs idx sid = idx sid"
proof (induction rs arbitrary: idx)
  case Nil
  show ?case by simp
next
  case (Cons r rs)
  show ?case
  proof (cases "row_sid r")
    case None
    with Cons show ?thesis by simp
  next
    case (Some k)
    with Cons.prems have "k \<noteq> sid" by auto
    with Some Cons show ?thesis by simp
  qed
qed

lemma index_rows_last:
  assumes "row_sid r = Some sid" and "\<forall>r'\<in>set post. row_sid r' \<noteq> Some sid"
  shows "index_rows (pre @ r # post) idx sid = Some (index_entry sid r)"
proof -
  have "index_rows (pre @ r # post) idx sid
      = index_rows post ((index_rows pre idx)(sid \<mapsto> index_entry sid r)) sid"
    using assms(1) by (simp add: index_rows_append)
  also have "\<dots> = ((index_rows pre idx)(sid \<mapsto> index_entry sid r)) sid"
    using assms(2) by (rule index_rows_other)
  finally show ?thesis by simp
qed

text \<open>A no-break space is whitespace that \<^verbatim>\<open>strip()\<close> removes, as a blank is.\<close>

lemma index_entry_no_break_space:
  "fst (snd (index_entry ''s1'' [(''filename'', [CHR 0xA0])])) = ''s1.cpp''"
  "fst (snd (index_entry ''s1'' [(''filename'', CHR 0xA0 # ''a.py''), (''language'', ''C'')]))
     = ''a.py''"
  by (simp_all add: index_entry_def get_or_empty_def guess_ext_def py_strip_def py_isspace_def
      Let_def)

section \<open>The derived filename: claim C6\<close>

text \<open>
  C6, as the claim states it, fails: the filename of a row is not used verbatim, it is
  stripped of the whitespace around it first. A row whose filename is \<^verbatim>\<open>a.py\<close> after a
  blank is indexed under \<^verbatim>\<open>a.py\<close>, and a row whose filename is two blanks, which is not
  empty, gets the derived filename.
\<close>

theorem index_entry_filename_counterexample:
  "get_or_empty [(''submission_id'', ''s1''), (''language'', ''Python''), (''filename'', '' a.py'')]
      ''filename'' = '' a.py''
   \<and> fst (snd (index_entry ''s1''
        [(''submission_id'', ''s1''), (''language'', ''Python''), (''filename'', '' a.py'')])) = ''a.py''
   \<and> get_or_empty [(''submission_id'', ''s1''), (''language'', ''Python''), (''filename'', ''  '')]
      ''filename'' \<noteq> []
   \<and> fst (snd (index_entry ''s1''
        [(''submission_id'', ''s1''), (''language'', ''Python''), (''filename'', ''  '')])) = ''s1.py''"
  by (simp add: index_entry_def get_or_empty_def guess_ext_def py_strip_def py_isspace_def Let_def)

text \<open>
  C6, amended. The index entry of a row keyed \<open>sid\<close> holds the language and the filename
  of the row, both stripped of surrounding whitespace, and the row. If the stripped
  filename is not empty it is the filename; a filename with no whitespace around it is so
  used verbatim. If the stripped filename is empty (the column is missing, empty or
  blank) the filename is \<open>sid\<close> followed by \<^verbatim>\<open>.py\<close> if the language label contains
  \<^verbatim>\<open>Python\<close>, else \<^verbatim>\<open>.c\<close> if it contains \<^verbatim>\<open>C\<close> and not \<^verbatim>\<open>C++\<close>, else \<^verbatim>\<open>.cpp\<close>; stripping
  the label does not change what it contains. With an empty filename and the language
  \<^verbatim>\<open>C++\<close> the filename is \<open>sid\<close> followed by \<^verbatim>\<open>.cpp\<close>. This entry is what the indexer
  stores for the row.
\<close>

theorem index_entry_filename:
  "index_entry sid r =
     (py_strip (get_or_empty r ''language''),
      (if py_strip (get_or_empty r ''filename'') \<noteq> [] then py_strip (get_or_empty r ''filename'')
       else sid @
         (if py_in ''Python'' (get_or_empty r ''language'') then ''.py''
          else if py_in ''C'' (get_or_empty r ''language'')
                  \<and> \<not> py_in ''C++'' (get_or_empty r ''language'') then ''.c''
          else ''.cpp'')),
      r)
   \<and> (get_or_empty r ''filename'' \<noteq> [] \<and> \<not> py_isspace (hd (get_or_empty r ''filename''))
        \<and> \<not> py_isspace (last (get_or_empty r ''filename''))
        \<longrightarrow> fst (snd (index_entry sid r)) = get_or_empty r ''filename'')
   \<and> (get_or_empty r ''filename'' = [] \<and> get_or_empty r ''language'' = ''C++''
        \<longrightarrow> fst (snd (index_entry sid r)) = sid @ ''.cpp'')
   \<and> (row_sid r = Some sid \<longrightarrow> index_rows [r] idx sid = Some (index_entry sid r))"
proof -
  have a: "index_entry sid r =
     (py_strip (get_or_empty r ''language''),
      (if py_strip (get_or_empty r ''filename'') \<noteq> [] then py_strip (get_or_empty r ''filename'')
       else sid @
         (if py_in ''Python'' (get_or_empty r ''language'') then ''.py''
          else if py_in ''C'' (get_or_empty r ''language'')
                  \<and> \<not> py_in ''C++'' (get_or_empty r ''language'') then ''.c''
          else ''.cpp'')),
      r)"
    using guess_ext_strip [of "get_or_empty r ''language''"]
    by (simp add: index_entry_def Let_def guess_ext_def)
  have b: "fst (snd (index_entry sid r)) = get_or_empty r ''filename''"
    if "get_or_empty r ''filename'' \<noteq> []" "\<not> py_isspace (hd (get_or_empty r ''filename''))"
      "\<not> py_isspace (last (get_or_empty r ''filename''))"
    using py_strip_id [OF that] that(1) by (simp add: index_entry_def)
  have c: "fst (snd (index_entry sid r)) = sid @ ''.cpp''"
    if "get_or_empty r ''filename'' = []" "get_or_empty r ''language'' = ''C++''"
    using that by (simp add: index_entry_def guess_ext_def py_strip_def py_isspace_def)
  have d: "index_rows [r] idx sid = Some (index_entry sid r)" if "row_sid r = Some sid"
    using that by simp
  from a b c d show ?thesis by blast
qed

theorem index_entry_filename_witness:
  "index_entry ''s000000002'' (example_rows ! 1) = (''C++'', ''s000000002.cpp'', example_rows ! 1)
   \<and> get_or_empty (example_rows ! 1) ''filename'' = []
   \<and> get_or_empty (example_rows ! 1) ''language'' = ''C++''
   \<and> fst (snd (index_entry ''s000000002'' (example_rows ! 1))) = ''s000000002'' @ ''.cpp''
   \<and> get_or_empty (example_rows ! 0) ''filename'' = ''a.py''
   \<and> \<not> py_isspace (hd (get_or_empty (example_rows ! 0) ''filename''))
   \<and> \<not> py_isspace (last (get_or_empty (example_rows ! 0) ''filename''))
   \<and> fst (snd (index_entry ''s000000001'' (example_rows ! 0))) = ''a.py''
   \<and> row_sid (example_rows ! 0) = Some ''s000000001''
   \<and> index_rows [example_rows ! 0] Map.empty ''s000000001''
       = Some (index_entry ''s000000001'' (example_rows ! 0))"
proof -
  have h: "get_or_empty (example_rows ! 1) ''filename'' = []"
    "get_or_empty (example_rows ! 1) ''language'' = ''C++''"
    "get_or_empty (example_rows ! 0) ''filename'' = ''a.py''"
    "row_sid (example_rows ! 0) = Some ''s000000001''"
    by (simp_all add: example_rows_def get_or_empty_def row_sid_def)
  have s: "get_or_empty (example_rows ! 0) ''filename'' \<noteq> []"
    "\<not> py_isspace (hd (get_or_empty (example_rows ! 0) ''filename''))"
    "\<not> py_isspace (last (get_or_empty (example_rows ! 0) ''filename''))"
    unfolding h(3) by (simp_all add: py_isspace_def)
  note T1 = index_entry_filename [of "''s000000002''" "example_rows ! 1" Map.empty]
  note T0 = index_entry_filename [of "''s000000001''" "example_rows ! 0" Map.empty]
  from T1 h have e1: "fst (snd (index_entry ''s000000002'' (example_rows ! 1))) = ''s000000002'' @ ''.cpp''"
    by blast
  from T1 h have e2: "index_entry ''s000000002'' (example_rows ! 1)
      = (''C++'', ''s000000002.cpp'', example_rows ! 1)"
    by (simp add: py_strip_def py_isspace_def)
  from T0 s have "fst (snd (index_entry ''s000000001'' (example_rows ! 0)))
      = get_or_empty (example_rows ! 0) ''filename''"
    by blast
  with h(3) have e3: "fst (snd (index_entry ''s000000001'' (example_rows ! 0))) = ''a.py''"
    by simp
  from T0 h have e4: "index_rows [example_rows ! 0] Map.empty ''s000000001''
       = Some (index_entry ''s000000001'' (example_rows ! 0))"
    by blast
  from s(2,3) h(3) have s': "\<not> py_isspace (hd (get_or_empty (example_rows ! 0) ''filename''))"
    "\<not> py_isspace (last (get_or_empty (example_rows ! 0) ''filename''))"
    by simp_all
  from h s' e1 e2 e3 e4 show ?thesis by blast
qed

section \<open>Rows with the same submission identifier: claim C10\<close>

text \<open>
  C10. The indexer has no error branch for the rows of a table that exists and can be
  read: it returns an index. If several rows of the table are keyed to the same
  submission identifier, the index maps the identifier to the entry (language, filename,
  row) of the last of them in file order: a later row overwrites an earlier one, and
  nothing is counted or raised.
\<close>

theorem build_submission_index_last_row:
  assumes "metadata_csv env (meta_csv env problem_id) = Some (Inr (pre @ r # post))"
    and "row_sid r = Some sid"
    and "\<forall>r'\<in>set post. row_sid r' \<noteq> Some sid"
  shows "\<exists>idx. build_submission_index env problem_id = Inr idx
           \<and> idx sid = Some (index_entry sid r)"
  using assms(1) index_rows_last [OF assms(2,3), of pre Map.empty]
  by (simp add: build_submission_index_def)

theorem build_submission_index_last_row_witness:
  "row_sid [(''submission_id'', ''s7''), (''language'', ''C''), (''status'', ''WA'')] = Some ''s7''
   \<and> row_sid [(''id'', ''s7''), (''language'', ''Python''), (''filename'', ''x.py'')] = Some ''s7''
   \<and> row_sid [(''submission_id'', ''s8''), (''language'', ''C'')] \<noteq> Some ''s7''
   \<and> (\<exists>idx. build_submission_index
         (example_env\<lparr>metadata_csv := (\<lambda>p. Some (Inr
            [[(''submission_id'', ''s7''), (''language'', ''C''), (''status'', ''WA'')],
             [(''id'', ''s7''), (''language'', ''Python''), (''filename'', ''x.py'')],
             [(''submission_id'', ''s8''), (''language'', ''C'')]]))\<rparr>) ''p00001'' = Inr idx
        \<and> idx ''s7'' = Some (''Python'', ''x.py'',
             [(''id'', ''s7''), (''language'', ''Python''), (''filename'', ''x.py'')]))"
proof -
  let ?r1 = "[(''submission_id'', ''s7''), (''language'', ''C''), (''status'', ''WA'')]"
  let ?r2 = "[(''id'', ''s7''), (''language'', ''Python''), (''filename'', ''x.py'')]"
  let ?r3 = "[(''submission_id'', ''s8''), (''language'', ''C'')]"
  let ?env = "example_env\<lparr>metadata_csv := (\<lambda>p. Some (Inr [?r1, ?r2, ?r3]))\<rparr>"
  have k: "row_sid ?r1 = Some ''s7''" "row_sid ?r2 = Some ''s7''" "row_sid ?r3 \<noteq> Some ''s7''"
    by (simp_all add: row_sid_def get_or_empty_def)
  have m: "metadata_csv ?env (meta_csv ?env ''p00001'') = Some (Inr ([?r1] @ ?r2 # [?r3]))"
    by simp
  have p: "\<forall>r'\<in>set [?r3]. row_sid r' \<noteq> Some ''s7''"
    using k(3) by simp
  have e: "index_entry ''s7'' ?r2 = (''Python'', ''x.py'', ?r2)"
    by (simp add: index_entry_def get_or_empty_def py_strip_def py_isspace_def Let_def)
  from build_submission_index_last_row [OF m k(2) p] e k show ?thesis by simp
qed

section \<open>A missing metadata table: claim C4\<close>

text \<open>
  C4. When the table of a problem does not exist the indexer raises the
  \<^verbatim>\<open>FileNotFoundError\<close> \<open>Missing_metadata_csv\<close>, and the caller catches it: the whole group
  of the problem is passed over, \<^verbatim>\<open>missing_meta\<close> grows by the number of submissions of the
  group, nothing else of the state changes (no line is written, no file copied), and the
  loop goes on with the remaining problems from that state.
\<close>

theorem process_problem_missing_table:
  assumes "metadata_csv env (meta_csv env pid) = None"
  shows "build_submission_index env pid = Inl (Missing_metadata_csv (meta_csv env pid))
    \<and> process_problem env split_name (pid, sids) st
        = Done (st\<lparr>missing_meta := missing_meta st + length sids\<rparr>)
    \<and> process_problems env split_name ((pid, sids) # grps) st
        = process_problems env split_name grps (st\<lparr>missing_meta := missing_meta st + length sids\<rparr>)
    \<and> out (st\<lparr>missing_meta := missing_meta st + length sids\<rparr>) = out st
    \<and> raw (st\<lparr>missing_meta := missing_meta st + length sids\<rparr>) = raw st
    \<and> count_written (st\<lparr>missing_meta := missing_meta st + length sids\<rparr>) = count_written st
    \<and> missing_file (st\<lparr>missing_meta := missing_meta st + length sids\<rparr>) = missing_file st"
  using assms by (simp add: build_submission_index_def process_problem_def)

theorem process_problem_missing_table_witness:
  "metadata_csv example_env (meta_csv example_env ''p00002'') = None
   \<and> process_problems example_env ''train''
        [(''p00002'', [''s000000005'', ''s000000006'']), (''p00001'', [''s000000001''])]
        \<lparr>count_written = 0, missing_meta = 0, missing_file = 0, out = [], raw = Map.empty\<rparr>
      = process_problems example_env ''train'' [(''p00001'', [''s000000001''])]
        \<lparr>count_written = 0, missing_meta = 2, missing_file = 0, out = [], raw = Map.empty\<rparr>
   \<and> (case process_problems example_env ''train''
        [(''p00002'', [''s000000005'', ''s000000006'']), (''p00001'', [''s000000001''])]
        \<lparr>count_written = 0, missing_meta = 0, missing_file = 0, out = [], raw = Map.empty\<rparr> of
        Done st \<Rightarrow> (count_written st, missing_meta st, missing_file st, length (out st))
      | Aborted e st \<Rightarrow> (0, 0, 0, 0)) = (1, 2, 0, 1)"
proof -
  have h: "metadata_csv example_env (meta_csv example_env ''p00002'') = None"
    by (simp add: example_env_def meta_csv_def)
  have e: "(case process_problems example_env ''train'' [(''p00001'', [''s000000001''])]
        \<lparr>count_written = 0, missing_meta = 2, missing_file = 0, out = [], raw = Map.empty\<rparr> of
        Done st \<Rightarrow> (count_written st, missing_meta st, missing_file st, length (out st))
      | Aborted e st \<Rightarrow> (0, 0, 0, 0)) = (1, 2, 0, 1)"
    by code_simp
  note T = process_problem_missing_table [where env = example_env and pid = "''p00002''"
      and split_name = "''train''" and sids = "[''s000000005'', ''s000000006'']"
      and grps = "[(''p00001'', [''s000000001''])]"
      and st = "\<lparr>count_written = 0, missing_meta = 0, missing_file = 0, out = [], raw = Map.empty\<rparr>",
      OF h]
  from T [THEN conjunct2, THEN conjunct2, THEN conjunct1]
  have s: "process_problems example_env ''train''
        [(''p00002'', [''s000000005'', ''s000000006'']), (''p00001'', [''s000000001''])]
        \<lparr>count_written = 0, missing_meta = 0, missing_file = 0, out = [], raw = Map.empty\<rparr>
      = process_problems example_env ''train'' [(''p00001'', [''s000000001''])]
        \<lparr>count_written = 0, missing_meta = 2, missing_file = 0, out = [], raw = Map.empty\<rparr>"
    by (simp del: process_problems.simps add: numeral_2_eq_2)
  from h s e show ?thesis by (simp del: process_problems.simps)
qed

section \<open>A missing source file: claim C5\<close>

text \<open>
  C5. For a submission that the index holds and whose resolved path does not exist, the
  body of the loop adds one to \<^verbatim>\<open>missing_file\<close> and changes nothing else of the state: no
  line is written, no raw copy is made, the other counters stay. The loop goes on with
  the next submission from that state.
\<close>

theorem process_sid_missing_file:
  assumes "idx sid = Some (language, filename, meta)"
    and "source_files env (resolve_source_path env pid sid language filename) = None"
  shows "process_sid env split_name idx pid sid st
        = Done (st\<lparr>missing_file := missing_file st + 1\<rparr>)
    \<and> process_sids env split_name idx pid (sid # sids) st
        = process_sids env split_name idx pid sids (st\<lparr>missing_file := missing_file st + 1\<rparr>)
    \<and> out (st\<lparr>missing_file := missing_file st + 1\<rparr>) = out st
    \<and> raw (st\<lparr>missing_file := missing_file st + 1\<rparr>) = raw st
    \<and> count_written (st\<lparr>missing_file := missing_file st + 1\<rparr>) = count_written st
    \<and> missing_meta (st\<lparr>missing_file := missing_file st + 1\<rparr>) = missing_meta st"
  using assms by (simp add: process_sid_def)

theorem process_sid_missing_file_witness:
  "index_rows example_rows Map.empty ''s000000002''
      = Some (''C++'', ''s000000002.cpp'', example_rows ! 1)
   \<and> source_files example_env
        (resolve_source_path example_env ''p00001'' ''s000000002'' ''C++'' ''s000000002.cpp'') = None
   \<and> process_sid example_env ''train'' (index_rows example_rows Map.empty) ''p00001'' ''s000000002''
        \<lparr>count_written = 3, missing_meta = 0, missing_file = 4, out = [], raw = Map.empty\<rparr>
      = Done \<lparr>count_written = 3, missing_meta = 0, missing_file = 5, out = [], raw = Map.empty\<rparr>"
proof -
  have i: "index_rows example_rows Map.empty ''s000000002''
      = Some (''C++'', ''s000000002.cpp'', example_rows ! 1)"
    by (simp add: example_rows_def row_sid_def get_or_empty_def index_entry_def guess_ext_def
        py_strip_def py_isspace_def Let_def)
  have f: "source_files example_env
        (resolve_source_path example_env ''p00001'' ''s000000002'' ''C++'' ''s000000002.cpp'') = None"
    by (simp add: example_env_def resolve_source_path_def)
  note T = process_sid_missing_file [where env = example_env and idx = "index_rows example_rows Map.empty"
      and sid = "''s000000002''" and pid = "''p00001''" and split_name = "''train''"
      and st = "\<lparr>count_written = 3, missing_meta = 0, missing_file = 4, out = [], raw = Map.empty\<rparr>",
      OF i f]
  from T [THEN conjunct1]
  have "process_sid example_env ''train'' (index_rows example_rows Map.empty) ''p00001'' ''s000000002''
        \<lparr>count_written = 3, missing_meta = 0, missing_file = 4, out = [], raw = Map.empty\<rparr>
      = Done \<lparr>count_written = 3, missing_meta = 0, missing_file = 5, out = [], raw = Map.empty\<rparr>"
    by simp
  with i f show ?thesis by simp
qed

section \<open>Reading the source text: claim C7\<close>

text \<open>
  C7. The text is read as UTF-8 with undecodable bytes dropped, and when that call returns
  its text is the result. If that call raises, whatever it raises, the file is read again
  as Latin-1 with the same tolerance: when the second call returns, its text is the
  result and nothing is raised; when the second call raises too, its exception is raised
  to the loop. Decoding never raises, so for a file that a call can read the recovery
  returns a text: the line with that text is written, and only the raw copy that follows
  can still stop the run. For a path that exists and that neither call can read, the
  exception of the second call leaves the loop and the run stops there, with nothing
  written for the submission.
\<close>

theorem read_code_two_tier:
  "(utf8_raises f = None \<longrightarrow> read_code env f = Inr (decode env Utf8 (contents f)))
   \<and> (utf8_raises f = Some e \<and> latin1_raises f = None
        \<longrightarrow> read_code env f = Inr (decode env Latin1 (contents f)))
   \<and> (utf8_raises f = Some e \<and> latin1_raises f = Some e'
        \<longrightarrow> read_code env f = Inl e')
   \<and> (idx sid = Some (language, filename, meta)
        \<and> source_files env (resolve_source_path env pid sid language filename) = Some f
        \<and> read_code env f = Inr code
        \<longrightarrow> (case process_sid env split_name idx pid sid st of
               Done st' \<Rightarrow>
                 out st' = out st @ [\<lparr>rec_problem_id = pid, rec_submission_id = sid,
                     rec_language = language, rec_filename = filename,
                     rec_status = row_status meta,
                     rec_label = map_status_to_label (row_status meta), rec_code = code\<rparr>]
             | Aborted e'' st' \<Rightarrow>
                 out st' = out st @ [\<lparr>rec_problem_id = pid, rec_submission_id = sid,
                     rec_language = language, rec_filename = filename,
                     rec_status = row_status meta,
                     rec_label = map_status_to_label (row_status meta), rec_code = code\<rparr>]
                 \<and> copy_raw_raises env (raw st)
                       (resolve_source_path env pid sid language filename)
                       (raw_dest split_name pid language filename) = Some (e'', raw st')))
   \<and> (idx sid = Some (language, filename, meta)
        \<and> source_files env (resolve_source_path env pid sid language filename) = Some f
        \<and> utf8_raises f = Some e \<and> latin1_raises f = Some e'
        \<longrightarrow> process_sid env split_name idx pid sid st = Aborted e' st
          \<and> process_sids env split_name idx pid (sid # sids) st = Aborted e' st)"
  by (auto simp: read_code_def read_text_def process_sid_def COPY_RAW_def Let_def
      split: option.splits)

theorem read_code_two_tier_witness:
  "read_code example_env
      \<lparr>contents = ''print(1)'', stat = 0x1A4, utf8_raises = None, latin1_raises = None\<rparr>
     = Inr (map of_char ''print(1)'')
   \<and> read_code example_env
      \<lparr>contents = ''print(1)'', stat = 0x1A4, utf8_raises = Some (IO_error ''EIO''),
         latin1_raises = None\<rparr>
     = Inr (map of_char ''print(1)'')
   \<and> read_code example_env
      \<lparr>contents = ''print(1)'', stat = 0x1A4, utf8_raises = Some (IO_error ''EIO''),
         latin1_raises = Some (IO_error ''EACCES'')\<rparr>
     = Inl (IO_error ''EACCES'')
   \<and> index_rows example_rows Map.empty ''s000000001'' = Some (''Python'', ''a.py'', example_rows ! 0)
   \<and> source_files example_env
        (resolve_source_path example_env ''p00001'' ''s000000001'' ''Python'' ''a.py'')
        = Some \<lparr>contents = ''print(1)'', stat = 0x1A4, utf8_raises = None, latin1_raises = None\<rparr>
   \<and> (\<exists>st'. process_sid example_env ''train'' (index_rows example_rows Map.empty) ''p00001''
          ''s000000001''
          \<lparr>count_written = 0, missing_meta = 0, missing_file = 0, out = [], raw = Map.empty\<rparr>
          = Done st'
        \<and> out st' = [\<lparr>rec_problem_id = ''p00001'', rec_submission_id = ''s000000001'',
               rec_language = ''Python'', rec_filename = ''a.py'', rec_status = ''AC'',
               rec_label = lit ''no_error'', rec_code = map of_char ''print(1)''\<rparr>])
   \<and> process_sid
        (example_env\<lparr>source_files := (\<lambda>p. Some \<lparr>contents = ''print(1)'', stat = 0x1A4,
           utf8_raises = Some (IO_error ''EIO''), latin1_raises = Some (IO_error ''EACCES'')\<rparr>)\<rparr>)
        ''train'' (index_rows example_rows Map.empty) ''p00001'' ''s000000001''
        \<lparr>count_written = 0, missing_meta = 0, missing_file = 0, out = [], raw = Map.empty\<rparr>
      = Aborted (IO_error ''EACCES'')
        \<lparr>count_written = 0, missing_meta = 0, missing_file = 0, out = [], raw = Map.empty\<rparr>"
proof -
  let ?ok = "\<lparr>contents = ''print(1)'', stat = 0x1A4, utf8_raises = None, latin1_raises = None\<rparr>"
  let ?retry = "\<lparr>contents = ''print(1)'', stat = 0x1A4, utf8_raises = Some (IO_error ''EIO''),
         latin1_raises = None\<rparr>"
  let ?no = "\<lparr>contents = ''print(1)'', stat = 0x1A4, utf8_raises = Some (IO_error ''EIO''),
         latin1_raises = Some (IO_error ''EACCES'')\<rparr>"
  let ?bad = "example_env\<lparr>source_files := (\<lambda>p. Some ?no)\<rparr>"
  let ?st = "\<lparr>count_written = 0, missing_meta = 0, missing_file = 0, out = [], raw = Map.empty\<rparr>"
  let ?idx = "index_rows example_rows Map.empty"
  let ?rec = "\<lparr>rec_problem_id = ''p00001'', rec_submission_id = ''s000000001'',
               rec_language = ''Python'', rec_filename = ''a.py'', rec_status = ''AC'',
               rec_label = lit ''no_error'', rec_code = map of_char ''print(1)''\<rparr>"
  have i: "?idx ''s000000001'' = Some (''Python'', ''a.py'', example_rows ! 0)"
    by (simp add: example_rows_def row_sid_def get_or_empty_def index_entry_def
        py_strip_def py_isspace_def Let_def)
  have f: "source_files example_env
        (resolve_source_path example_env ''p00001'' ''s000000001'' ''Python'' ''a.py'') = Some ?ok"
    by (simp add: example_env_def resolve_source_path_def)
  have g: "source_files ?bad (resolve_source_path ?bad ''p00001'' ''s000000001'' ''Python'' ''a.py'')
        = Some ?no"
    by simp
  have d: "decode example_env Utf8 ''print(1)'' = map of_char ''print(1)''"
    "decode example_env Latin1 ''print(1)'' = map of_char ''print(1)''"
    by (simp_all add: example_env_def)
  have m: "row_status (example_rows ! 0) = ''AC''"
    "map_status_to_label (row_status (example_rows ! 0)) = lit ''no_error''"
    by (simp_all add: example_rows_def row_status_def get_or_empty_def map_status_to_label_def
        string_eval)
  note A = read_code_two_tier [where env = example_env and f = ?ok and idx = ?idx
      and sid = "''s000000001''" and language = "''Python''" and filename = "''a.py''"
      and meta = "example_rows ! 0" and pid = "''p00001''" and split_name = "''train''"
      and st = ?st and code = "map of_char ''print(1)''"]
  note B = read_code_two_tier [where env = example_env and f = ?retry and e = "IO_error ''EIO''"]
  note C = read_code_two_tier [where env = ?bad and f = ?no and e = "IO_error ''EIO''"
      and e' = "IO_error ''EACCES''" and idx = ?idx
      and sid = "''s000000001''" and language = "''Python''" and filename = "''a.py''"
      and meta = "example_rows ! 0" and pid = "''p00001''" and split_name = "''train''"
      and st = ?st]
  from A d have a: "read_code example_env ?ok = Inr (map of_char ''print(1)'')" by simp
  from B d have b: "read_code example_env ?retry = Inr (map of_char ''print(1)'')" by simp
  from C have c0: "read_code ?bad ?no = Inl (IO_error ''EACCES'')" by simp
  then have c: "read_code example_env ?no = Inl (IO_error ''EACCES'')"
    by (simp add: read_code_def read_text_def)
  from A i f a have "case process_sid example_env ''train'' ?idx ''p00001'' ''s000000001'' ?st of
      Done st' \<Rightarrow> out st' = out ?st @ [\<lparr>rec_problem_id = ''p00001'',
          rec_submission_id = ''s000000001'', rec_language = ''Python'', rec_filename = ''a.py'',
          rec_status = row_status (example_rows ! 0),
          rec_label = map_status_to_label (row_status (example_rows ! 0)),
          rec_code = map of_char ''print(1)''\<rparr>]
    | Aborted e'' st' \<Rightarrow> out st' = out ?st @ [\<lparr>rec_problem_id = ''p00001'',
          rec_submission_id = ''s000000001'', rec_language = ''Python'', rec_filename = ''a.py'',
          rec_status = row_status (example_rows ! 0),
          rec_label = map_status_to_label (row_status (example_rows ! 0)),
          rec_code = map of_char ''print(1)''\<rparr>]
        \<and> copy_raw_raises example_env (raw ?st)
              (resolve_source_path example_env ''p00001'' ''s000000001'' ''Python'' ''a.py'')
              (raw_dest ''train'' ''p00001'' ''Python'' ''a.py'') = Some (e'', raw st')"
    by blast
  moreover have "copy_raw_raises example_env r s t = None" for r s t
    by (simp add: example_env_def)
  ultimately have p: "\<exists>st'. process_sid example_env ''train'' ?idx ''p00001'' ''s000000001'' ?st
        = Done st' \<and> out st' = [?rec]"
    using m by (cases "process_sid example_env ''train'' ?idx ''p00001'' ''s000000001'' ?st")
      simp_all
  from C i g have q: "process_sid ?bad ''train'' ?idx ''p00001'' ''s000000001'' ?st
      = Aborted (IO_error ''EACCES'') ?st"
    by simp
  from a b c i f p q show ?thesis by blast
qed

section \<open>Properties of the loops\<close>










section \<open>No deduplication: claim C9\<close>



section \<open>Runs that start from different files\<close>

lemma map_add_absorb: "(a ++ b) ++ b = a ++ b"
  by (rule ext) (simp add: map_add_def split: option.splits)

lemma over_empty_fs: "over fs empty_fs = fs"
  by (simp add: over_def empty_fs_def)

lemma over_assoc: "over (over a b) c = over a (over b c)"
  by (simp add: over_def)

lemma over_absorb: "over (over a b) b = over a b"
  by (simp add: over_def map_add_absorb)

lemma rebase_rebase: "rebase a (rebase b r) = rebase (over a b) r"
  by (cases r) (simp_all add: over_assoc, simp add: over_def)

lemma result_fs_rebase: "result_fs (rebase fs r) = over fs (result_fs r)"
  by (cases r) simp_all

text \<open>
  Where no raw copy raises, the loops do not look at the raw tree, they only add to it: a
  run that starts with more files ends with those files under what it wrote.
\<close>

lemma process_sid_frame:
  assumes "copy_raw_raises env = (\<lambda>raw src dest. None)"
  shows "process_sid env split_name idx pid sid (st\<lparr>raw := m ++ raw st\<rparr>)
     = on_raw m (process_sid env split_name idx pid sid st)"
  by (simp add: process_sid_def COPY_RAW_def Let_def assms
      split: option.splits sum.splits prod.splits)

lemma process_sids_frame:
  assumes "copy_raw_raises env = (\<lambda>raw src dest. None)"
  shows "process_sids env split_name idx pid sids (st\<lparr>raw := m ++ raw st\<rparr>)
     = on_raw m (process_sids env split_name idx pid sids st)"
proof (induction sids arbitrary: st)
  case Nil
  show ?case by simp
next
  case (Cons s sids)
  show ?case
  proof (cases "process_sid env split_name idx pid s st")
    case (Done st1)
    with Cons.IH [of st1] show ?thesis by (simp add: process_sid_frame [OF assms])
  next
    case (Aborted e st1)
    then show ?thesis by (simp add: process_sid_frame [OF assms])
  qed
qed

lemma process_problem_frame:
  assumes "copy_raw_raises env = (\<lambda>raw src dest. None)"
  shows "process_problem env split_name grp (st\<lparr>raw := m ++ raw st\<rparr>)
     = on_raw m (process_problem env split_name grp st)"
  by (simp add: process_problem_def process_sids_frame [OF assms] split: sum.splits)

lemma process_problems_frame:
  assumes "copy_raw_raises env = (\<lambda>raw src dest. None)"
  shows "process_problems env split_name grps (st\<lparr>raw := m ++ raw st\<rparr>)
     = on_raw m (process_problems env split_name grps st)"
proof (induction grps arbitrary: st)
  case Nil
  show ?case by simp
next
  case (Cons g grps)
  show ?case
  proof (cases "process_problem env split_name g st")
    case (Done st1)
    with Cons.IH [of st1] show ?thesis by (simp add: process_problem_frame [OF assms])
  next
    case (Aborted e st1)
    then show ?thesis by (simp add: process_problem_frame [OF assms])
  qed
qed

lemma extract_ids_frame:
  assumes "copy_raw_raises env = (\<lambda>raw src dest. None)"
  shows "extract_ids env split_name ids fs = rebase fs (extract_ids env split_name ids empty_fs)"
proof -
  let ?st0 = "\<lparr>count_written = 0, missing_meta = 0, missing_file = 0, out = [],
                 raw = Map.empty\<rparr>"
  have st: "\<lparr>count_written = 0, missing_meta = 0, missing_file = 0, out = [],
             raw = raw_files fs\<rparr> = ?st0\<lparr>raw := raw_files fs ++ raw ?st0\<rparr>"
    by simp
  have "process_problems env split_name (group_by_problem ids [])
          \<lparr>count_written = 0, missing_meta = 0, missing_file = 0, out = [], raw = raw_files fs\<rparr>
        = on_raw (raw_files fs) (process_problems env split_name (group_by_problem ids []) ?st0)"
    unfolding st by (rule process_problems_frame [OF assms])
  then show ?thesis
    by (cases "process_problems env split_name (group_by_problem ids []) ?st0")
      (simp_all add: extract_ids_def empty_fs_def over_def Let_def)
qed

lemma extract_ids_raw:
  "extract_ids env split_name ids fs = Finished st w \<Longrightarrow> raw st = raw_files w"
  by (auto simp: extract_ids_def Let_def split: outcome.splits)

lemma extract_split_frame:
  assumes "copy_raw_raises env = (\<lambda>raw src dest. None)"
  shows "extract_split env split_name id_file fs
     = map_option (rebase fs) (extract_split env split_name id_file empty_fs)"
  using extract_ids_frame [OF assms, of split_name _ fs]
  by (simp add: extract_split_def over_empty_fs split: sum.splits option.splits)

lemma extract_split_raw:
  "extract_split env split_name id_file fs = Some (Finished st w) \<Longrightarrow> raw st = raw_files w"
  by (auto simp: extract_split_def extract_ids_raw split: if_splits sum.splits option.splits)

lemma main_raw:
  "main env fs = Some (Finished st w) \<Longrightarrow> raw st = raw_files w"
  by (auto simp: main_def extract_split_raw split: option.splits result.splits)

lemma main_frame:
  assumes nc: "copy_raw_raises env = (\<lambda>raw src dest. None)"
  shows "main env fs = map_option (rebase fs) (main env empty_fs)"
proof -
  let ?E1 = "extract_split env ''train'' (SPLIT_DIR @ [''train-ids.json''])"
  let ?E2 = "extract_split env ''valid'' (SPLIT_DIR @ [''valid-ids.json''])"
  let ?E3 = "extract_split env ''test'' (SPLIT_DIR @ [''test-ids.json''])"
  have f1: "?E1 fs = map_option (rebase fs) (?E1 empty_fs)"
    by (rule extract_split_frame [OF nc])
  show ?thesis
  proof (cases "?E1 empty_fs")
    case None
    with f1 show ?thesis by (simp add: main_def)
  next
    case s1: (Some r1)
    show ?thesis
    proof (cases r1)
      case (Raised e w1)
      with s1 f1 show ?thesis by (simp add: main_def)
    next
      case (Finished st1 w1)
      have f2: "?E2 (over fs w1) = map_option (rebase (over fs w1)) (?E2 empty_fs)"
        by (rule extract_split_frame [OF nc])
      have g2: "?E2 w1 = map_option (rebase w1) (?E2 empty_fs)"
        by (rule extract_split_frame [OF nc])
      show ?thesis
      proof (cases "?E2 empty_fs")
        case None
        with s1 Finished f1 f2 g2 show ?thesis by (simp add: main_def)
      next
        case s2: (Some r2)
        show ?thesis
        proof (cases r2)
          case (Raised e w2)
          with s1 Finished s2 f1 f2 g2 show ?thesis by (simp add: main_def over_assoc)
        next
          case F2: (Finished st2 w2)
          have f3: "?E3 (over (over fs w1) w2)
              = map_option (rebase (over (over fs w1) w2)) (?E3 empty_fs)"
            by (rule extract_split_frame [OF nc])
          have g3: "?E3 (over w1 w2) = map_option (rebase (over w1 w2)) (?E3 empty_fs)"
            by (rule extract_split_frame [OF nc])
          have m1: "main env fs = ?E3 (over (over fs w1) w2)"
            using s1 Finished s2 F2 f1 f2 by (simp add: main_def)
          have m2: "main env empty_fs = ?E3 (over w1 w2)"
            using s1 Finished s2 F2 g2 by (simp add: main_def)
          show ?thesis
            unfolding m1 m2 f3 g3
            by (cases "?E3 empty_fs") (simp_all add: rebase_rebase over_assoc)
        qed
      qed
    qed
  qed
qed

lemma frame_idempotent:
  assumes frame: "\<And>fs. f fs = map_option (rebase fs) (f empty_fs)"
    and agree: "\<And>st w. f empty_fs = Some (Finished st w) \<Longrightarrow> raw st = raw_files w"
    and run: "f fs = Some r"
  shows "f (result_fs r) = Some r"
proof -
  from run frame [of fs] obtain r0 where r0: "f empty_fs = Some r0" and r: "r = rebase fs r0"
    by (cases "f empty_fs") simp_all
  have "rebase (result_fs r) r0 = r"
  proof (cases r0)
    case (Finished st w)
    with r0 agree have "raw st = raw_files w" by simp
    with Finished r show ?thesis
      by (simp add: over_absorb) (simp add: over_def map_add_absorb)
  next
    case (Raised e w)
    with r show ?thesis by (simp add: over_absorb)
  qed
  with frame [of "result_fs r"] r0 show ?thesis by simp
qed

lemma extract_split_again:
  assumes "copy_raw_raises env = (\<lambda>raw src dest. None)"
    and "extract_split env split_name id_file fs = Some r"
  shows "extract_split env split_name id_file (result_fs r) = Some r"
  using extract_split_frame [OF assms(1)] extract_split_raw assms(2)
  by (rule frame_idempotent [where f = "extract_split env split_name id_file"])

lemma main_again:
  assumes "copy_raw_raises env = (\<lambda>raw src dest. None)" and "main env fs = Some r"
  shows "main env (result_fs r) = Some r"
  using main_frame [OF assms(1)] main_raw assms(2)
  by (rule frame_idempotent [where f = "main env"])

text \<open>A run in which no copy raised is a run of the environment in which no copy raises.\<close>

lemma no_copy_errors_simps:
  "copy_raw_raises (no_copy_errors env) = (\<lambda>raw src dest. None)"
  "build_submission_index (no_copy_errors env) = build_submission_index env"
  "source_files (no_copy_errors env) = source_files env"
  "resolve_source_path (no_copy_errors env) = resolve_source_path env"
  "read_code (no_copy_errors env) = read_code env"
  "load_id_list (no_copy_errors env) = load_id_list env"
  "id_files (no_copy_errors env) = id_files env"
  by (auto simp: no_copy_errors_def build_submission_index_def meta_csv_def
      resolve_source_path_def read_code_def read_text_def load_id_list_def fun_eq_iff
      split: option.splits sum.splits encoding.splits)

lemma process_sid_no_copy_errors:
  "process_sid env split_name idx pid sid st = Done st' \<Longrightarrow>
     process_sid (no_copy_errors env) split_name idx pid sid st = Done st'"
  by (auto simp: process_sid_def no_copy_errors_simps COPY_RAW_def Let_def
      split: option.splits sum.splits)

lemma process_sids_no_copy_errors:
  "process_sids env split_name idx pid sids st = Done st' \<Longrightarrow>
     process_sids (no_copy_errors env) split_name idx pid sids st = Done st'"
proof (induction sids arbitrary: st)
  case Nil
  then show ?case by simp
next
  case (Cons s sids)
  from Cons.prems obtain st1 where
    "process_sid env split_name idx pid s st = Done st1"
    "process_sids env split_name idx pid sids st1 = Done st'"
    by (auto split: outcome.splits)
  with Cons.IH [of st1] show ?case by (simp add: process_sid_no_copy_errors)
qed

lemma process_problem_no_copy_errors:
  "process_problem env split_name grp st = Done st' \<Longrightarrow>
     process_problem (no_copy_errors env) split_name grp st = Done st'"
  by (auto simp: process_problem_def no_copy_errors_simps process_sids_no_copy_errors
      split: sum.splits if_splits)

lemma process_problems_no_copy_errors:
  "process_problems env split_name grps st = Done st' \<Longrightarrow>
     process_problems (no_copy_errors env) split_name grps st = Done st'"
proof (induction grps arbitrary: st)
  case Nil
  then show ?case by simp
next
  case (Cons g grps)
  from Cons.prems obtain st1 where
    "process_problem env split_name g st = Done st1"
    "process_problems env split_name grps st1 = Done st'"
    by (auto split: outcome.splits)
  with Cons.IH [of st1] show ?case by (simp add: process_problem_no_copy_errors)
qed

lemma extract_ids_no_copy_errors:
  "extract_ids env split_name ids fs = Finished st fs' \<Longrightarrow>
     extract_ids (no_copy_errors env) split_name ids fs = Finished st fs'"
  by (auto simp: extract_ids_def Let_def process_problems_no_copy_errors split: outcome.splits)

lemma extract_split_no_copy_errors:
  "extract_split env split_name id_file fs = Some (Finished st fs') \<Longrightarrow>
     extract_split (no_copy_errors env) split_name id_file fs = Some (Finished st fs')"
  by (auto simp: extract_split_def no_copy_errors_simps extract_ids_no_copy_errors
      split: if_splits sum.splits option.splits)

lemma main_no_copy_errors:
  "main env fs = Some (Finished st fs') \<Longrightarrow> main (no_copy_errors env) fs = Some (Finished st fs')"
  by (auto simp: main_def extract_split_no_copy_errors split: option.splits result.splits)

lemma extract_ids_lines:
  assumes "extract_ids env split_name ids fs = Finished st fs'"
  shows "jsonl_files fs' (OUT_DIR @ [split_name @ ''.jsonl''])
     = jsonl_files (result_fs (extract_ids (no_copy_errors env) split_name ids empty_fs))
         (OUT_DIR @ [split_name @ ''.jsonl''])"
proof -
  let ?r0 = "extract_ids (no_copy_errors env) split_name ids empty_fs"
  have "Finished st fs' = rebase fs ?r0"
    using extract_ids_no_copy_errors [OF assms]
      extract_ids_frame [OF no_copy_errors_simps(1), of env split_name ids fs]
    by simp
  then have "fs' = over fs (result_fs ?r0)"
    by (cases ?r0) simp_all
  moreover have "jsonl_files (result_fs ?r0) (OUT_DIR @ [split_name @ ''.jsonl'']) \<noteq> None"
    by (simp add: extract_ids_def Let_def split: outcome.splits)
  ultimately show ?thesis
    by (auto simp: over_def map_add_def split: option.splits)
qed

section \<open>Running the extraction twice: claim C8\<close>

text \<open>
  C8, as the claim states it, fails. The raw copy is made with \<^verbatim>\<open>shutil.copy2\<close>, which gives
  the copy the permission bits of its source, and a copy onto a file that may not be
  written raises. In the example environment, with the operating system refusing to write
  over a copy whose mode is \<^verbatim>\<open>0444\<close>, the first run of the valid split ends with two lines
  in its output file; the second run, on the files the first left and with the corpus
  unchanged, empties the output file, writes the first line, and stops at the copy of the
  read-only file: the output file then holds one line.
\<close>

theorem extraction_twice_counterexample:
  "(case extract_split
      (example_env\<lparr>copy_raw_raises := (\<lambda>raw src dest.
         case raw dest of
           None \<Rightarrow> None
         | Some (bs, mode) \<Rightarrow>
             if mode = 0x124 then Some (IO_error ''PermissionError'', raw) else None)\<rparr>)
      ''valid'' (SPLIT_DIR @ [''valid-ids.json'']) empty_fs of
      Some (Finished st1 fs1) \<Rightarrow>
        map_option (map rec_submission_id) (jsonl_files fs1 (OUT_DIR @ [''valid.jsonl'']))
          = Some [''s000000003'', ''s000000001'']
        \<and> (case extract_split
              (example_env\<lparr>copy_raw_raises := (\<lambda>raw src dest.
                 case raw dest of
                   None \<Rightarrow> None
                 | Some (bs, mode) \<Rightarrow>
                     if mode = 0x124 then Some (IO_error ''PermissionError'', raw) else None)\<rparr>)
              ''valid'' (SPLIT_DIR @ [''valid-ids.json'']) fs1 of
              Some (Raised e fs2) \<Rightarrow>
                e = IO_error ''PermissionError''
                \<and> map_option (map rec_submission_id) (jsonl_files fs2 (OUT_DIR @ [''valid.jsonl'']))
                    = Some [''s000000003'']
            | _ \<Rightarrow> False)
    | _ \<Rightarrow> False)"
  by code_simp

text \<open>
  C8, amended. The result of a split, and of the three splits in turn, is a function of
  the corpus, the ID lists and the files in the output directory. If a run ends without
  an exception and a second run, on the files the first left and with the corpus
  unchanged, ends without an exception too, the second run has the same counters and
  leaves the same files: the same lines in the output file of each split and the same
  bytes and modes in the raw tree. Where no raw copy raises, a second run always repeats
  the first, also when the first run stopped at an exception. The lines of the output file
  of a split that ran to its end do not depend on what the output directory held before:
  the file is written anew, not appended to.
\<close>

theorem extraction_twice:
  "(extract_split env split_name id_file fs = Some (Finished st1 fs1)
      \<and> extract_split env split_name id_file fs1 = Some (Finished st2 fs2)
      \<longrightarrow> st2 = st1 \<and> fs2 = fs1)
   \<and> (main env fs = Some (Finished st1' fs1') \<and> main env fs1' = Some (Finished st2' fs2')
      \<longrightarrow> st2' = st1' \<and> fs2' = fs1')
   \<and> (copy_raw_raises env = (\<lambda>raw src dest. None)
        \<and> extract_split env split_name id_file fs = Some r
      \<longrightarrow> extract_split env split_name id_file (result_fs r) = Some r)
   \<and> (copy_raw_raises env = (\<lambda>raw src dest. None) \<and> main env fs = Some r'
      \<longrightarrow> main env (result_fs r') = Some r')
   \<and> (extract_ids env split_name ids fs = Finished st fs'
        \<and> extract_ids env split_name ids fs0 = Finished st0 fs0'
      \<longrightarrow> jsonl_files fs' (OUT_DIR @ [split_name @ ''.jsonl''])
            = jsonl_files fs0' (OUT_DIR @ [split_name @ ''.jsonl''])
          \<and> jsonl_files fs' (OUT_DIR @ [split_name @ ''.jsonl'']) = Some (out st))"
proof -
  have a: "st2 = st1 \<and> fs2 = fs1"
    if r1: "extract_split env split_name id_file fs = Some (Finished st1 fs1)"
      and r2: "extract_split env split_name id_file fs1 = Some (Finished st2 fs2)"
  proof -
    from extract_split_again [OF no_copy_errors_simps(1) extract_split_no_copy_errors [OF r1]]
    have "extract_split (no_copy_errors env) split_name id_file fs1 = Some (Finished st1 fs1)"
      by simp
    with extract_split_no_copy_errors [OF r2] show ?thesis by simp
  qed
  have b: "st2' = st1' \<and> fs2' = fs1'"
    if r1: "main env fs = Some (Finished st1' fs1')"
      and r2: "main env fs1' = Some (Finished st2' fs2')"
  proof -
    from main_again [OF no_copy_errors_simps(1) main_no_copy_errors [OF r1]]
    have "main (no_copy_errors env) fs1' = Some (Finished st1' fs1')"
      by simp
    with main_no_copy_errors [OF r2] show ?thesis by simp
  qed
  have c: "jsonl_files fs' (OUT_DIR @ [split_name @ ''.jsonl''])
            = jsonl_files fs0' (OUT_DIR @ [split_name @ ''.jsonl''])
          \<and> jsonl_files fs' (OUT_DIR @ [split_name @ ''.jsonl'']) = Some (out st)"
    if r1: "extract_ids env split_name ids fs = Finished st fs'"
      and r2: "extract_ids env split_name ids fs0 = Finished st0 fs0'"
    using extract_ids_lines [OF r1] extract_ids_lines [OF r2] r1
    by (auto simp: extract_ids_def Let_def split: outcome.splits)
  from a b c extract_split_again main_again show ?thesis by blast
qed

theorem extraction_twice_witness:
  "copy_raw_raises example_env = (\<lambda>raw src dest. None)
   \<and> (\<exists>st1 fs1 st fs'.
        extract_split example_env ''valid'' (SPLIT_DIR @ [''valid-ids.json'']) empty_fs
          = Some (Finished st1 fs1)
      \<and> extract_split example_env ''valid'' (SPLIT_DIR @ [''valid-ids.json'']) fs1
          = Some (Finished st1 fs1)
      \<and> map_option (map rec_submission_id) (jsonl_files fs1 (OUT_DIR @ [''valid.jsonl'']))
          = Some [''s000000003'', ''s000000001'']
      \<and> extract_ids example_env ''valid''
          [(''p00001'', ''s000000003''), (''p00001'', ''s000000001'')] empty_fs = Finished st1 fs1
      \<and> extract_ids example_env ''valid''
          [(''p00001'', ''s000000003''), (''p00001'', ''s000000001'')] fs1 = Finished st fs'
      \<and> jsonl_files fs' (OUT_DIR @ [''valid.jsonl'']) = jsonl_files fs1 (OUT_DIR @ [''valid.jsonl'']))
   \<and> (\<exists>st1 fs1.
        main example_env empty_fs = Some (Finished st1 fs1)
      \<and> main example_env fs1 = Some (Finished st1 fs1)
      \<and> map_option fst (raw_files fs1 (raw_dest ''test'' ''p00001'' ''Python'' ''a.py''))
          = Some ''print(1)'')"
proof -
  let ?idf = "SPLIT_DIR @ [''valid-ids.json'']"
  let ?ids = "[(''p00001'', ''s000000003''), (''p00001'', ''s000000001'')]"
  have nc: "copy_raw_raises example_env = (\<lambda>raw src dest. None)"
    by (simp add: example_env_def)
  have "case extract_split example_env ''valid'' ?idf empty_fs of
      Some (Finished st1 fs1) \<Rightarrow>
        map_option (map rec_submission_id) (jsonl_files fs1 (OUT_DIR @ [''valid.jsonl'']))
          = Some [''s000000003'', ''s000000001'']
    | _ \<Rightarrow> False"
    by code_simp
  then obtain st1 fs1 where
    r1: "extract_split example_env ''valid'' ?idf empty_fs = Some (Finished st1 fs1)" and
    l1: "map_option (map rec_submission_id) (jsonl_files fs1 (OUT_DIR @ [''valid.jsonl'']))
          = Some [''s000000003'', ''s000000001'']"
    by (auto split: option.splits result.splits)
  have ld: "load_id_list example_env ?idf
      = Inr [(JStr ''p00001'', JStr ''s000000003''), (JStr ''p00001'', JStr ''s000000001'')]"
    by code_simp
  have idf: "id_files example_env ?idf \<noteq> None"
    by (simp add: example_env_def SPLIT_DIR_def)
  have es: "extract_split example_env ''valid'' ?idf x = Some (extract_ids example_env ''valid'' ?ids x)"
    for x
    using ld idf by (auto simp: extract_split_def)
  note T = extraction_twice [where env = example_env and split_name = "''valid''"
      and id_file = ?idf and ids = ?ids]
  from T [where fs = empty_fs and r = "Finished st1 fs1"] nc r1
  have r2: "extract_split example_env ''valid'' ?idf fs1 = Some (Finished st1 fs1)"
    by simp
  from r1 es have i1: "extract_ids example_env ''valid'' ?ids empty_fs = Finished st1 fs1"
    by simp
  from r2 es have i2: "extract_ids example_env ''valid'' ?ids fs1 = Finished st1 fs1"
    by simp
  from T [where fs = fs1 and st = st1 and fs' = fs1 and fs0 = empty_fs and st0 = st1
      and fs0' = fs1] i1 i2
  have j: "jsonl_files fs1 (OUT_DIR @ [''valid.jsonl'']) = jsonl_files fs1 (OUT_DIR @ [''valid.jsonl''])"
    by simp
  have "case main example_env empty_fs of
      Some (Finished st1 fs1) \<Rightarrow>
        map_option fst (raw_files fs1 (raw_dest ''test'' ''p00001'' ''Python'' ''a.py''))
          = Some ''print(1)''
    | _ \<Rightarrow> False"
    by code_simp
  then obtain mst mfs where
    m1: "main example_env empty_fs = Some (Finished mst mfs)" and
    w: "map_option fst (raw_files mfs (raw_dest ''test'' ''p00001'' ''Python'' ''a.py''))
          = Some ''print(1)''"
    by (auto split: option.splits result.splits)
  from T [where fs = empty_fs and r' = "Finished mst mfs"] nc m1
  have m2: "main example_env mfs = Some (Finished mst mfs)"
    by simp
  have A: "\<exists>st1 fs1 st fs'.
        extract_split example_env ''valid'' ?idf empty_fs = Some (Finished st1 fs1)
      \<and> extract_split example_env ''valid'' ?idf fs1 = Some (Finished st1 fs1)
      \<and> map_option (map rec_submission_id) (jsonl_files fs1 (OUT_DIR @ [''valid.jsonl'']))
          = Some [''s000000003'', ''s000000001'']
      \<and> extract_ids example_env ''valid'' ?ids empty_fs = Finished st1 fs1
      \<and> extract_ids example_env ''valid'' ?ids fs1 = Finished st fs'
      \<and> jsonl_files fs' (OUT_DIR @ [''valid.jsonl'']) = jsonl_files fs1 (OUT_DIR @ [''valid.jsonl''])"
    using r1 r2 l1 i1 i2 j
    by (intro exI [of _ st1] exI [of _ fs1] conjI)
  have B: "\<exists>st1 fs1.
        main example_env empty_fs = Some (Finished st1 fs1)
      \<and> main example_env fs1 = Some (Finished st1 fs1)
      \<and> map_option fst (raw_files fs1 (raw_dest ''test'' ''p00001'' ''Python'' ''a.py''))
          = Some ''print(1)''"
    using m1 m2 w by (intro exI [of _ mst] exI [of _ mfs] conjI)
  from nc A B show ?thesis by (intro conjI)
qed

end
